theory Spec2Isabelle
  imports Main "HOL-Library.Word"
begin

unbundle bit_operations_syntax

section \<open>Kernel types and status codes\<close>

text \<open>
  The driver is written against the Windows kernel headers. Fixed-width integers are
  words of their width; \<open>LONG\<close> and \<open>LONGLONG\<close> are signed, so the code's comparisons on
  them are the signed ones (\<open>\<le>s\<close>, \<open><s\<close>). A \<open>HANDLE\<close> is a pointer-sized value whose
  \<open>NULL\<close> is 0. A \<open>PEPROCESS\<close> is the address of a process object; a field that may hold
  \<open>NULL\<close> is an \<open>option\<close> of it, since \<open>PsGetCurrentProcess()\<close> never returns \<open>NULL\<close>.
\<close>

type_synonym UCHAR = "8 word"
type_synonym WCHAR = "16 word"
type_synonym USHORT = "16 word"
type_synonym ULONG = "32 word"
type_synonym LONG = "32 word"
type_synonym LONGLONG = "64 word"
type_synonym HANDLE = "64 word"
type_synonym PVOID = "64 word"
type_synonym PEPROCESS = nat
type_synonym ACCESS_MASK = "32 word"

datatype NTSTATUS =
    STATUS_SUCCESS
  | STATUS_BUFFER_TOO_SMALL
  | STATUS_INVALID_PARAMETER
  | STATUS_ACCESS_DENIED
  | STATUS_INVALID_DEVICE_REQUEST
  | STATUS_UNSUCCESSFUL

text \<open>
  Dereferencing a \<open>NULL\<close> system buffer is a fault of the machine, not a status the
  routine returns; the model makes it a value of its own.
\<close>

datatype fault = NULL_POINTER_DEREFERENCE

section \<open>Counted wide strings\<close>

text \<open>
  \<open>UNICODE_STRING\<close>: \<open>Length\<close> and \<open>MaximumLength\<close> count bytes, \<open>Buffer\<close> is a pointer
  to wide characters (\<open>None\<close> for \<open>NULL\<close>; otherwise the characters from the pointer
  on). The string's characters are the first \<open>Length / 2\<close> of the buffer.
\<close>

record UNICODE_STRING =
  Length :: USHORT
  MaximumLength :: USHORT
  Buffer :: "WCHAR list option"

definition us_chars :: "UNICODE_STRING \<Rightarrow> WCHAR list" where
  "us_chars u = (case Buffer u of None \<Rightarrow> [] | Some b \<Rightarrow> take (unat (Length u) div 2) b)"

text \<open>
  The representation invariant the kernel keeps for every counted string it hands
  out: an even byte count, and a buffer that holds that many characters.
\<close>

definition wf_unicode_string :: "UNICODE_STRING \<Rightarrow> bool" where
  "wf_unicode_string u =
     (even (unat (Length u)) \<and>
      (case Buffer u of None \<Rightarrow> Length u = 0 | Some b \<Rightarrow> unat (Length u) div 2 \<le> length b))"

text \<open>A wide-character literal \<open>L"..."\<close>, without its terminator.\<close>

definition wstr :: "string \<Rightarrow> WCHAR list" where
  "wstr s = map (\<lambda>c. of_nat (of_char c)) s"

text \<open>\<open>RtlInitUnicodeString\<close> on a NUL-terminated literal.\<close>

definition RtlInitUnicodeString :: "WCHAR list \<Rightarrow> UNICODE_STRING" where
  "RtlInitUnicodeString src =
     \<lparr> Length = of_nat (2 * length src),
       MaximumLength = of_nat (2 * length src + 2),
       Buffer = Some (src @ [0]) \<rparr>"

text \<open>
  The kernel's string comparisons. Case-insensitive comparison upcases both sides with
  the system's upcase table, which is not part of the driver: it is the parameter
  \<open>upc\<close>. \<open>RtlCompareUnicodeString\<close> returns the difference of the first pair of
  characters that differ, and the difference of the lengths when one string is a
  prefix of the other; \<open>RtlEqualUnicodeString\<close> compares the lengths first.
\<close>

definition fold_case :: "(WCHAR \<Rightarrow> WCHAR) \<Rightarrow> bool \<Rightarrow> WCHAR list \<Rightarrow> WCHAR list" where
  "fold_case upc CaseInSensitive cs = (if CaseInSensitive then map upc cs else cs)"

definition RtlCompareUnicodeString ::
    "(WCHAR \<Rightarrow> WCHAR) \<Rightarrow> UNICODE_STRING \<Rightarrow> UNICODE_STRING \<Rightarrow> bool \<Rightarrow> int" where
  "RtlCompareUnicodeString upc s1 s2 CaseInSensitive =
     (case find (\<lambda>(c1, c2). c1 \<noteq> c2)
             (zip (fold_case upc CaseInSensitive (us_chars s1))
                  (fold_case upc CaseInSensitive (us_chars s2))) of
        Some (c1, c2) \<Rightarrow> int (unat c1) - int (unat c2)
      | None \<Rightarrow> int (unat (Length s1)) - int (unat (Length s2)))"

definition RtlEqualUnicodeString ::
    "(WCHAR \<Rightarrow> WCHAR) \<Rightarrow> UNICODE_STRING \<Rightarrow> UNICODE_STRING \<Rightarrow> bool \<Rightarrow> bool" where
  "RtlEqualUnicodeString upc s1 s2 CaseInSensitive =
     (Length s1 = Length s2 \<and>
      fold_case upc CaseInSensitive (us_chars s1) = fold_case upc CaseInSensitive (us_chars s2))"

text \<open>An upcase table for the concrete evaluations below: ASCII letters only.\<close>

definition upcase_ascii :: "WCHAR \<Rightarrow> WCHAR" where
  "upcase_ascii c = (if 0x61 \<le> c \<and> c \<le> 0x7A then c - 0x20 else c)"

text \<open>\<open>RtlCopyMemory\<close> of \<open>n\<close> wide characters from \<open>src\<close> over the start of \<open>dst\<close>.\<close>

definition RtlCopyMemory_wchars :: "WCHAR list \<Rightarrow> WCHAR list \<Rightarrow> nat \<Rightarrow> WCHAR list" where
  "RtlCopyMemory_wchars dst src n = take n src @ drop n dst"

section \<open>Constants of TAD\_RV.h and TadShared.h\<close>

definition TAD_VERSION_MAJOR :: ULONG where "TAD_VERSION_MAJOR = 26500"
definition TAD_VERSION_MINOR :: ULONG where "TAD_VERSION_MINOR = 181"

definition TAD_DRIVER_FILENAME :: "WCHAR list" where
  "TAD_DRIVER_FILENAME = wstr ''TAD.RV.sys''"
definition TAD_UI_FILENAME :: "WCHAR list" where
  "TAD_UI_FILENAME = wstr ''TAD.RV.exe''"
definition TAD_SERVICE_FILENAME :: "WCHAR list" where
  "TAD_SERVICE_FILENAME = wstr ''TadBridgeService.exe''"

definition TAD_AUTH_KEY_SIZE :: nat where "TAD_AUTH_KEY_SIZE = 32"
definition TAD_KEY_XOR_MASK :: UCHAR where "TAD_KEY_XOR_MASK = 0xA7"

definition TadObfuscatedKey :: "UCHAR list" where
  "TadObfuscatedKey =
     [0xF3, 0xE6, 0xE3, 0x8A, 0xF5, 0xF1, 0x89, 0xF4,
      0xE2, 0xE4, 0xF2, 0xF5, 0xEE, 0xF3, 0xF2, 0xEC,
      0xE2, 0xFE, 0x97, 0x96, 0x95, 0x94, 0x93, 0x92,
      0xEA, 0xE8, 0xE9, 0xEE, 0xF3, 0xE8, 0xE9, 0x86]"

text \<open>The access rights of the kernel headers that the stripped masks are made of.\<close>

definition PROCESS_TERMINATE :: ACCESS_MASK where "PROCESS_TERMINATE = 0x0001"
definition PROCESS_CREATE_THREAD :: ACCESS_MASK where "PROCESS_CREATE_THREAD = 0x0002"
definition PROCESS_VM_OPERATION :: ACCESS_MASK where "PROCESS_VM_OPERATION = 0x0008"
definition PROCESS_VM_WRITE :: ACCESS_MASK where "PROCESS_VM_WRITE = 0x0020"
definition PROCESS_SUSPEND_RESUME :: ACCESS_MASK where "PROCESS_SUSPEND_RESUME = 0x0800"
definition THREAD_TERMINATE :: ACCESS_MASK where "THREAD_TERMINATE = 0x0001"
definition THREAD_SUSPEND_RESUME :: ACCESS_MASK where "THREAD_SUSPEND_RESUME = 0x0002"
definition THREAD_SET_CONTEXT :: ACCESS_MASK where "THREAD_SET_CONTEXT = 0x0010"

definition TAD_STRIPPED_PROCESS_RIGHTS :: ACCESS_MASK where
  "TAD_STRIPPED_PROCESS_RIGHTS =
     PROCESS_TERMINATE OR PROCESS_VM_WRITE OR PROCESS_VM_OPERATION
       OR PROCESS_CREATE_THREAD OR PROCESS_SUSPEND_RESUME"

definition TAD_STRIPPED_THREAD_RIGHTS :: ACCESS_MASK where
  "TAD_STRIPPED_THREAD_RIGHTS =
     THREAD_TERMINATE OR THREAD_SUSPEND_RESUME OR THREAD_SET_CONTEXT"

definition TAD_MAX_UNLOCK_ATTEMPTS :: LONG where "TAD_MAX_UNLOCK_ATTEMPTS = 5"

text \<open>\<open>(LONGLONG)(-30LL * 10 * 1000 * 1000)\<close>: thirty seconds in 100 ns units, relative.\<close>

definition TAD_LOCKOUT_DURATION :: LONGLONG where "TAD_LOCKOUT_DURATION = - 300000000"

definition TAD_MAX_BANNED_APPS :: nat where "TAD_MAX_BANNED_APPS = 32"
definition TAD_MAX_IMAGE_NAME_LEN :: nat where "TAD_MAX_IMAGE_NAME_LEN = 64"
definition TAD_MAX_OU_LENGTH :: nat where "TAD_MAX_OU_LENGTH = 256"
definition TAD_MAX_SID_LENGTH :: nat where "TAD_MAX_SID_LENGTH = 68"

definition TAD_POLICY_FLAG_BLOCK_APPS :: ULONG where "TAD_POLICY_FLAG_BLOCK_APPS = 0x00000010"

definition TadRoleUnknown :: LONG where "TadRoleUnknown = 0xFF"
definition TadAlertNone :: ULONG where "TadAlertNone = 0"

section \<open>Payload structures of the control requests\<close>

text \<open>
  Field names are those of TadShared.h; a name that two structures share carries the
  structure's prefix. Fixed-size arrays are lists, whose lengths \<open>wf_request\<close> states.
\<close>

record TAD_PROTECT_PID_INPUT =
  pid_TargetPid :: ULONG
  pid_Flags :: ULONG

record TAD_UNLOCK_INPUT =
  AuthKey :: "UCHAR list"

record TAD_HEARTBEAT_OUTPUT =
  DriverVersionMajor :: ULONG
  DriverVersionMinor :: ULONG
  hb_ProtectedPid :: ULONG
  ProcessProtectionActive :: UCHAR
  FileProtectionActive :: UCHAR
  UnlockPermitted :: UCHAR
  hb_HeartbeatAlive :: UCHAR
  hb_FailedUnlockAttempts :: ULONG
  hb_CurrentUserRole :: ULONG
  hb_PolicyValid :: ULONG

record TAD_SET_USER_ROLE_INPUT =
  Role :: ULONG
  SessionId :: ULONG
  UserSid :: "WCHAR list"

record TAD_HARD_LOCK_INPUT =
  hl_Enable :: ULONG
  hl_Flags :: ULONG

record TAD_PROTECT_UI_INPUT =
  ui_TargetPid :: ULONG
  Protect :: ULONG

record TAD_STEALTH_INPUT =
  stl_Enable :: ULONG
  stl_Flags :: ULONG

record TAD_POLICY_BUFFER =
  Version :: ULONG
  pol_Flags :: ULONG
  HeartbeatIntervalMs :: ULONG
  HeartbeatTimeoutMs :: ULONG
  OrganizationalUnit :: "WCHAR list"
  AllowedRoles :: ULONG
  Reserved :: "ULONG list"

record TAD_BANNED_APPS_INPUT =
  Count :: ULONG
  ImageNames :: "WCHAR list list"

record TAD_ALERT_OUTPUT =
  AlertType :: ULONG
  Timestamp :: LONGLONG
  SourcePid :: ULONG
  alert_Reserved :: ULONG
  Detail :: "WCHAR list"

text \<open>\<open>sizeof\<close> of each payload under \<open>#pragma pack(push, 8)\<close>.\<close>

definition sizeof_TAD_PROTECT_PID_INPUT :: ULONG where "sizeof_TAD_PROTECT_PID_INPUT = 8"
definition sizeof_TAD_UNLOCK_INPUT :: ULONG where "sizeof_TAD_UNLOCK_INPUT = 32"
definition sizeof_TAD_HEARTBEAT_OUTPUT :: ULONG where "sizeof_TAD_HEARTBEAT_OUTPUT = 28"
definition sizeof_TAD_SET_USER_ROLE_INPUT :: ULONG where "sizeof_TAD_SET_USER_ROLE_INPUT = 144"
definition sizeof_TAD_POLICY_BUFFER :: ULONG where "sizeof_TAD_POLICY_BUFFER = 564"
definition sizeof_TAD_ALERT_OUTPUT :: ULONG where "sizeof_TAD_ALERT_OUTPUT = 280"
definition sizeof_TAD_HARD_LOCK_INPUT :: ULONG where "sizeof_TAD_HARD_LOCK_INPUT = 8"
definition sizeof_TAD_PROTECT_UI_INPUT :: ULONG where "sizeof_TAD_PROTECT_UI_INPUT = 8"
definition sizeof_TAD_STEALTH_INPUT :: ULONG where "sizeof_TAD_STEALTH_INPUT = 8"
definition sizeof_TAD_BANNED_APPS_INPUT :: ULONG where "sizeof_TAD_BANNED_APPS_INPUT = 4100"

section \<open>Global driver state\<close>

text \<open>
  \<open>TAD_DRIVER_GLOBALS\<close> with the fields TAD\_RV.c reads and writes in the routines
  modelled here (the banned-app fields are used by TAD\_RV.c; the device object, the
  symbolic link, the timer objects and the mutex are left out). An entry of
  \<open>BannedApps\<close> points into its row of \<open>BannedAppStorage\<close>; the two are only ever written
  together, so the entry's \<open>Buffer\<close> carries the row's contents.
\<close>

record TAD_DRIVER_GLOBALS =
  ProtectedPid :: HANDLE
  ObCallbackHandle :: "PVOID option"
  AllowUnload :: LONG
  InputLocked :: LONG
  ProtectedUiPid :: HANDLE
  StealthActive :: LONG
  StealthFlags :: ULONG
  FailedUnlockAttempts :: LONG
  LockoutUntil :: LONGLONG
  FilterHandle :: "PVOID option"
  AgentProcess :: "PEPROCESS option"
  LastHeartbeatTime :: LONGLONG
  HeartbeatAlive :: LONG
  CurrentPolicy :: TAD_POLICY_BUFFER
  PolicyValid :: LONG
  CurrentUserRole :: LONG
  BannedAppStorage :: "WCHAR list list"
  BannedApps :: "UNICODE_STRING list"
  BannedAppCount :: ULONG

definition zero_UNICODE_STRING :: UNICODE_STRING where
  "zero_UNICODE_STRING = \<lparr> Length = 0, MaximumLength = 0, Buffer = None \<rparr>"

definition zero_TAD_POLICY_BUFFER :: TAD_POLICY_BUFFER where
  "zero_TAD_POLICY_BUFFER =
     \<lparr> Version = 0, pol_Flags = 0, HeartbeatIntervalMs = 0, HeartbeatTimeoutMs = 0,
       OrganizationalUnit = replicate TAD_MAX_OU_LENGTH 0, AllowedRoles = 0,
       Reserved = replicate 8 0 \<rparr>"

text \<open>\<open>TAD_DRIVER_GLOBALS g_Tad = { 0 }\<close>.\<close>

definition g_Tad_zero :: TAD_DRIVER_GLOBALS where
  "g_Tad_zero =
     \<lparr> ProtectedPid = 0, ObCallbackHandle = None, AllowUnload = 0, InputLocked = 0,
       ProtectedUiPid = 0, StealthActive = 0, StealthFlags = 0,
       FailedUnlockAttempts = 0, LockoutUntil = 0, FilterHandle = None,
       AgentProcess = None, LastHeartbeatTime = 0, HeartbeatAlive = 0,
       CurrentPolicy = zero_TAD_POLICY_BUFFER, PolicyValid = 0, CurrentUserRole = 0,
       BannedAppStorage = replicate TAD_MAX_BANNED_APPS (replicate TAD_MAX_IMAGE_NAME_LEN 0),
       BannedApps = replicate TAD_MAX_BANNED_APPS zero_UNICODE_STRING,
       BannedAppCount = 0 \<rparr>"

text \<open>
  \<open>DriverEntry\<close>: the state it leaves. Its arguments are what the registration
  facilities returned: the status of the device creation (fatal when it fails), and
  the handles of the object-callback and minifilter registrations (\<open>None\<close> when the
  registration failed, which is not fatal).
\<close>

definition DriverEntry ::
    "NTSTATUS \<Rightarrow> PVOID option \<Rightarrow> PVOID option \<Rightarrow> NTSTATUS \<times> TAD_DRIVER_GLOBALS" where
  "DriverEntry deviceStatus obHandle fltHandle =
     (let g = g_Tad_zero\<lparr> AllowUnload := 0, FailedUnlockAttempts := 0, HeartbeatAlive := 0,
                          PolicyValid := 0, CurrentUserRole := TadRoleUnknown \<rparr>
      in if deviceStatus \<noteq> STATUS_SUCCESS then (deviceStatus, g)
         else (STATUS_SUCCESS, g\<lparr> ObCallbackHandle := obHandle, FilterHandle := fltHandle \<rparr>))"

section \<open>Security utilities\<close>

text \<open>
  \<open>TadVerifyAuthKey\<close>, with a counter of the byte operations it performs: one XOR per
  round of the first loop, one XOR and one OR per round of the second. \<open>decoded\<close> is
  an uninitialised stack array; every cell is written by the first loop before the
  second reads it, so the model starts it at zero. The final wipe of \<open>decoded\<close> changes
  nothing the routine returns.
\<close>

function TadVerifyAuthKey_decode :: "nat \<Rightarrow> UCHAR list \<Rightarrow> nat \<Rightarrow> UCHAR list \<times> nat" where
  "TadVerifyAuthKey_decode i decoded ops =
     (if i < TAD_AUTH_KEY_SIZE
      then TadVerifyAuthKey_decode (i + 1)
             (decoded[i := (TadObfuscatedKey ! i) XOR TAD_KEY_XOR_MASK]) (ops + 1)
      else (decoded, ops))"
  by pat_completeness auto
termination
  by (relation "measure (\<lambda>(i, decoded, ops). TAD_AUTH_KEY_SIZE - i)") auto

function TadVerifyAuthKey_compare ::
    "UCHAR list \<Rightarrow> UCHAR list \<Rightarrow> nat \<Rightarrow> UCHAR \<Rightarrow> nat \<Rightarrow> UCHAR \<times> nat" where
  "TadVerifyAuthKey_compare decoded ProvidedKey i diff ops =
     (if i < TAD_AUTH_KEY_SIZE
      then TadVerifyAuthKey_compare decoded ProvidedKey (i + 1)
             (diff OR ((decoded ! i) XOR (ProvidedKey ! i))) (ops + 2)
      else (diff, ops))"
  by pat_completeness auto
termination
  by (relation "measure (\<lambda>(decoded, ProvidedKey, i, diff, ops). TAD_AUTH_KEY_SIZE - i)") auto

definition TadVerifyAuthKey_counted :: "UCHAR list \<Rightarrow> bool \<times> nat" where
  "TadVerifyAuthKey_counted ProvidedKey =
     (case TadVerifyAuthKey_decode 0 (replicate TAD_AUTH_KEY_SIZE 0) 0 of
        (decoded, n1) \<Rightarrow>
          (case TadVerifyAuthKey_compare decoded ProvidedKey 0 0 n1 of
             (diff, n2) \<Rightarrow> (diff = 0, n2)))"

definition TadVerifyAuthKey :: "UCHAR list \<Rightarrow> bool" where
  "TadVerifyAuthKey ProvidedKey = fst (TadVerifyAuthKey_counted ProvidedKey)"

text \<open>The stored key with the mask taken off: what the spec calls the de-obfuscated key.\<close>

definition deobfuscated_key :: "UCHAR list" where
  "deobfuscated_key = map (\<lambda>b. b XOR TAD_KEY_XOR_MASK) TadObfuscatedKey"

section \<open>The kernel environment of a request\<close>

text \<open>
  What a dispatch reads from the kernel while it serves one request: the process
  issuing the request (\<open>PsGetCurrentProcess\<close>), the clock (\<open>KeQuerySystemTime\<close>; the
  Unlock path reads it a second time when it arms the lockout), and the process table
  (\<open>PsLookupProcessByProcessId\<close>, \<open>None\<close> when the lookup fails).
\<close>

record kernel_env =
  CurrentProcess :: PEPROCESS
  SystemTime :: LONGLONG
  SystemTimeAtLockout :: LONGLONG
  PsLookupProcessByProcessId :: "HANDLE \<Rightarrow> PEPROCESS option"

definition TadIsCallerProtectedAgent :: "kernel_env \<Rightarrow> TAD_DRIVER_GLOBALS \<Rightarrow> bool" where
  "TadIsCallerProtectedAgent env g =
     (AgentProcess g \<noteq> None \<and> Some (CurrentProcess env) = AgentProcess g)"

definition TadIsProtectedFilename :: "(WCHAR \<Rightarrow> WCHAR) \<Rightarrow> UNICODE_STRING \<Rightarrow> bool" where
  "TadIsProtectedFilename upc FileName =
     (let driverName = RtlInitUnicodeString TAD_DRIVER_FILENAME;
          uiName = RtlInitUnicodeString TAD_UI_FILENAME;
          svcName = RtlInitUnicodeString TAD_SERVICE_FILENAME
      in if RtlCompareUnicodeString upc FileName driverName True = 0 then True
         else if RtlCompareUnicodeString upc FileName uiName True = 0 then True
         else if RtlCompareUnicodeString upc FileName svcName True = 0 then True
         else False)"

section \<open>Heartbeat watchdog\<close>

text \<open>
  \<open>TadHeartbeatDpcRoutine\<close>: the atomic read-and-clear of \<open>HeartbeatAlive\<close>. The first
  component tells whether the tick found the flag clear (the branch that logs the
  loss).
\<close>

definition TadHeartbeatDpcRoutine :: "TAD_DRIVER_GLOBALS \<Rightarrow> bool \<times> TAD_DRIVER_GLOBALS" where
  "TadHeartbeatDpcRoutine g = (HeartbeatAlive g = 0, g\<lparr> HeartbeatAlive := 0 \<rparr>)"

section \<open>Device-control dispatch\<close>

text \<open>
  A request, as \<open>TadDispatchDeviceControl\<close> reads it from the IRP: the two buffer
  lengths, and the control code together with the system buffer, seen through the cast
  that the code's \<open>case\<close> applies to it. \<open>None\<close> is a \<open>NULL\<close> system buffer. Heartbeat and
  ReadAlert only write to the buffer, so theirs carries no payload. A buffer shorter
  than the structure is never read: the size check comes first.
\<close>

datatype ioctl_request =
    IOCTL_TAD_PROTECT_PID "TAD_PROTECT_PID_INPUT option"
  | IOCTL_TAD_UNLOCK "TAD_UNLOCK_INPUT option"
  | IOCTL_TAD_HEARTBEAT "unit option"
  | IOCTL_TAD_SET_USER_ROLE "TAD_SET_USER_ROLE_INPUT option"
  | IOCTL_TAD_SET_POLICY "TAD_POLICY_BUFFER option"
  | IOCTL_TAD_READ_ALERT "unit option"
  | IOCTL_TAD_HARD_LOCK "TAD_HARD_LOCK_INPUT option"
  | IOCTL_TAD_PROTECT_UI "TAD_PROTECT_UI_INPUT option"
  | IOCTL_TAD_STEALTH "TAD_STEALTH_INPUT option"
  | IOCTL_TAD_SET_BANNED_APPS "TAD_BANNED_APPS_INPUT option"
  | IOCTL_UNKNOWN ULONG

record irp =
  InputBufferLength :: ULONG
  OutputBufferLength :: ULONG
  Request :: ioctl_request

text \<open>The lengths of the fixed-size arrays inside the payloads.\<close>

definition wf_request :: "ioctl_request \<Rightarrow> bool" where
  "wf_request r =
     (case r of
        IOCTL_TAD_UNLOCK (Some p) \<Rightarrow> length (AuthKey p) = TAD_AUTH_KEY_SIZE
      | IOCTL_TAD_SET_USER_ROLE (Some p) \<Rightarrow> length (UserSid p) = TAD_MAX_SID_LENGTH
      | IOCTL_TAD_SET_POLICY (Some p) \<Rightarrow>
          length (OrganizationalUnit p) = TAD_MAX_OU_LENGTH \<and> length (Reserved p) = 8
      | IOCTL_TAD_SET_BANNED_APPS (Some p) \<Rightarrow>
          length (ImageNames p) = TAD_MAX_BANNED_APPS \<and>
          list_all (\<lambda>row. length row = TAD_MAX_IMAGE_NAME_LEN) (ImageNames p)
      | _ \<Rightarrow> True)"

text \<open>What the dispatch returns: the completed IRP and the new global state.\<close>

datatype output_buffer =
    HEARTBEAT_OUTPUT TAD_HEARTBEAT_OUTPUT
  | ALERT_OUTPUT TAD_ALERT_OUTPUT

record irp_completion =
  IoStatus_Status :: NTSTATUS
  IoStatus_Information :: ULONG
  SystemBufferOut :: "output_buffer option"

type_synonym dispatch_result = "fault + (irp_completion \<times> TAD_DRIVER_GLOBALS)"

definition complete :: "NTSTATUS \<Rightarrow> TAD_DRIVER_GLOBALS \<Rightarrow> dispatch_result" where
  "complete status g =
     Inr (\<lparr> IoStatus_Status = status, IoStatus_Information = 0, SystemBufferOut = None \<rparr>, g)"

definition complete_with ::
    "ULONG \<Rightarrow> output_buffer \<Rightarrow> TAD_DRIVER_GLOBALS \<Rightarrow> dispatch_result" where
  "complete_with bytesWritten out g =
     Inr (\<lparr> IoStatus_Status = STATUS_SUCCESS, IoStatus_Information = bytesWritten,
            SystemBufferOut = Some out \<rparr>, g)"

definition ULongToHandle :: "ULONG \<Rightarrow> HANDLE" where
  "ULongToHandle v = ucast v"

definition HandleToULong :: "HANDLE \<Rightarrow> ULONG" where
  "HandleToULong h = ucast h"

definition BOOLEAN_of :: "bool \<Rightarrow> UCHAR" where
  "BOOLEAN_of b = (if b then 1 else 0)"

subsection \<open>PROTECT\_PID\<close>

text \<open>The reference counts of the process objects are not modelled.\<close>

definition dispatch_PROTECT_PID ::
    "kernel_env \<Rightarrow> TAD_DRIVER_GLOBALS \<Rightarrow> ULONG \<Rightarrow> TAD_PROTECT_PID_INPUT option \<Rightarrow> dispatch_result" where
  "dispatch_PROTECT_PID env g inLen buf =
     (if inLen < sizeof_TAD_PROTECT_PID_INPUT then complete STATUS_BUFFER_TOO_SMALL g
      else case buf of
        None \<Rightarrow> complete STATUS_INVALID_PARAMETER g
      | Some p \<Rightarrow>
          if pid_TargetPid p = 0 \<or> pid_Flags p \<noteq> 0 then complete STATUS_INVALID_PARAMETER g
          else (case PsLookupProcessByProcessId env (ULongToHandle (pid_TargetPid p)) of
                  None \<Rightarrow> complete STATUS_INVALID_PARAMETER g
                | Some proc \<Rightarrow>
                    complete STATUS_SUCCESS
                      (g\<lparr> AgentProcess := Some proc,
                          ProtectedPid := ULongToHandle (pid_TargetPid p) \<rparr>)))"

subsection \<open>UNLOCK\<close>

definition dispatch_UNLOCK ::
    "kernel_env \<Rightarrow> TAD_DRIVER_GLOBALS \<Rightarrow> ULONG \<Rightarrow> TAD_UNLOCK_INPUT option \<Rightarrow> dispatch_result" where
  "dispatch_UNLOCK env g inLen buf =
     (if inLen < sizeof_TAD_UNLOCK_INPUT then complete STATUS_BUFFER_TOO_SMALL g
      else case buf of
        None \<Rightarrow> complete STATUS_INVALID_PARAMETER g
      | Some p \<Rightarrow>
          if AgentProcess g \<noteq> None \<and> \<not> TadIsCallerProtectedAgent env g
          then complete STATUS_ACCESS_DENIED g
          else
            let now = SystemTime env in
            if TAD_MAX_UNLOCK_ATTEMPTS \<le>s FailedUnlockAttempts g \<and> now <s LockoutUntil g
            then complete STATUS_ACCESS_DENIED g
            else
              let g1 = (if TAD_MAX_UNLOCK_ATTEMPTS \<le>s FailedUnlockAttempts g
                        then g\<lparr> FailedUnlockAttempts := 0 \<rparr> else g)
              in if TadVerifyAuthKey (AuthKey p)
                 then complete STATUS_SUCCESS (g1\<lparr> AllowUnload := 1, FailedUnlockAttempts := 0 \<rparr>)
                 else
                   let a = FailedUnlockAttempts g1 + 1;
                       g2 = g1\<lparr> FailedUnlockAttempts := a \<rparr>;
                       g3 = (if TAD_MAX_UNLOCK_ATTEMPTS \<le>s a
                             then g2\<lparr> LockoutUntil :=
                                        SystemTimeAtLockout env + (- TAD_LOCKOUT_DURATION) \<rparr>
                             else g2)
                   in complete STATUS_ACCESS_DENIED g3)"

subsection \<open>HEARTBEAT\<close>

definition dispatch_HEARTBEAT ::
    "kernel_env \<Rightarrow> TAD_DRIVER_GLOBALS \<Rightarrow> ULONG \<Rightarrow> unit option \<Rightarrow> dispatch_result" where
  "dispatch_HEARTBEAT env g outLen buf =
     (if outLen < sizeof_TAD_HEARTBEAT_OUTPUT then complete STATUS_BUFFER_TOO_SMALL g
      else
        let g1 = g\<lparr> HeartbeatAlive := 1, LastHeartbeatTime := SystemTime env \<rparr> in
        case buf of
          None \<Rightarrow> Inl NULL_POINTER_DEREFERENCE
        | Some u \<Rightarrow>
            complete_with sizeof_TAD_HEARTBEAT_OUTPUT
              (HEARTBEAT_OUTPUT
                \<lparr> DriverVersionMajor = TAD_VERSION_MAJOR,
                  DriverVersionMinor = TAD_VERSION_MINOR,
                  hb_ProtectedPid = HandleToULong (ProtectedPid g1),
                  ProcessProtectionActive = BOOLEAN_of (ObCallbackHandle g1 \<noteq> None),
                  FileProtectionActive = BOOLEAN_of (FilterHandle g1 \<noteq> None),
                  UnlockPermitted = BOOLEAN_of (AllowUnload g1 \<noteq> 0),
                  hb_HeartbeatAlive = 1,
                  hb_FailedUnlockAttempts = FailedUnlockAttempts g1,
                  hb_CurrentUserRole = CurrentUserRole g1,
                  hb_PolicyValid = PolicyValid g1 \<rparr>)
              g1)"

subsection \<open>SET\_USER\_ROLE\<close>

definition dispatch_SET_USER_ROLE ::
    "kernel_env \<Rightarrow> TAD_DRIVER_GLOBALS \<Rightarrow> ULONG \<Rightarrow> TAD_SET_USER_ROLE_INPUT option \<Rightarrow> dispatch_result" where
  "dispatch_SET_USER_ROLE env g inLen buf =
     (if inLen < sizeof_TAD_SET_USER_ROLE_INPUT then complete STATUS_BUFFER_TOO_SMALL g
      else case buf of
        None \<Rightarrow> complete STATUS_INVALID_PARAMETER g
      | Some p \<Rightarrow>
          if AgentProcess g \<noteq> None \<and> \<not> TadIsCallerProtectedAgent env g
          then complete STATUS_ACCESS_DENIED g
          else complete STATUS_SUCCESS (g\<lparr> CurrentUserRole := Role p \<rparr>))"

subsection \<open>SET\_POLICY\<close>

definition dispatch_SET_POLICY ::
    "kernel_env \<Rightarrow> TAD_DRIVER_GLOBALS \<Rightarrow> ULONG \<Rightarrow> TAD_POLICY_BUFFER option \<Rightarrow> dispatch_result" where
  "dispatch_SET_POLICY env g inLen buf =
     (if inLen < sizeof_TAD_POLICY_BUFFER then complete STATUS_BUFFER_TOO_SMALL g
      else case buf of
        None \<Rightarrow> complete STATUS_INVALID_PARAMETER g
      | Some p \<Rightarrow>
          if AgentProcess g \<noteq> None \<and> \<not> TadIsCallerProtectedAgent env g
          then complete STATUS_ACCESS_DENIED g
          else if Version p \<noteq> 1 then complete STATUS_INVALID_PARAMETER g
          else complete STATUS_SUCCESS (g\<lparr> CurrentPolicy := p, PolicyValid := 1 \<rparr>))"

subsection \<open>READ\_ALERT\<close>

definition dispatch_READ_ALERT ::
    "kernel_env \<Rightarrow> TAD_DRIVER_GLOBALS \<Rightarrow> ULONG \<Rightarrow> unit option \<Rightarrow> dispatch_result" where
  "dispatch_READ_ALERT env g outLen buf =
     (if outLen < sizeof_TAD_ALERT_OUTPUT then complete STATUS_BUFFER_TOO_SMALL g
      else case buf of
        None \<Rightarrow> Inl NULL_POINTER_DEREFERENCE
      | Some u \<Rightarrow>
          complete_with sizeof_TAD_ALERT_OUTPUT
            (ALERT_OUTPUT
              \<lparr> AlertType = TadAlertNone, Timestamp = SystemTime env, SourcePid = 0,
                alert_Reserved = 0, Detail = replicate 128 0 \<rparr>)
            g)"

subsection \<open>HARD\_LOCK, PROTECT\_UI, STEALTH\<close>

definition dispatch_HARD_LOCK ::
    "kernel_env \<Rightarrow> TAD_DRIVER_GLOBALS \<Rightarrow> ULONG \<Rightarrow> TAD_HARD_LOCK_INPUT option \<Rightarrow> dispatch_result" where
  "dispatch_HARD_LOCK env g inLen buf =
     (if inLen < sizeof_TAD_HARD_LOCK_INPUT then complete STATUS_BUFFER_TOO_SMALL g
      else if \<not> TadIsCallerProtectedAgent env g then complete STATUS_ACCESS_DENIED g
      else case buf of
        None \<Rightarrow> Inl NULL_POINTER_DEREFERENCE
      | Some hl \<Rightarrow>
          complete STATUS_SUCCESS (g\<lparr> InputLocked := (if hl_Enable hl \<noteq> 0 then 1 else 0) \<rparr>))"

definition dispatch_PROTECT_UI ::
    "kernel_env \<Rightarrow> TAD_DRIVER_GLOBALS \<Rightarrow> ULONG \<Rightarrow> TAD_PROTECT_UI_INPUT option \<Rightarrow> dispatch_result" where
  "dispatch_PROTECT_UI env g inLen buf =
     (if inLen < sizeof_TAD_PROTECT_UI_INPUT then complete STATUS_BUFFER_TOO_SMALL g
      else if \<not> TadIsCallerProtectedAgent env g then complete STATUS_ACCESS_DENIED g
      else case buf of
        None \<Rightarrow> Inl NULL_POINTER_DEREFERENCE
      | Some ui \<Rightarrow>
          if Protect ui \<noteq> 0
          then complete STATUS_SUCCESS (g\<lparr> ProtectedUiPid := ucast (ui_TargetPid ui) \<rparr>)
          else complete STATUS_SUCCESS (g\<lparr> ProtectedUiPid := 0 \<rparr>))"

definition dispatch_STEALTH ::
    "kernel_env \<Rightarrow> TAD_DRIVER_GLOBALS \<Rightarrow> ULONG \<Rightarrow> TAD_STEALTH_INPUT option \<Rightarrow> dispatch_result" where
  "dispatch_STEALTH env g inLen buf =
     (if inLen < sizeof_TAD_STEALTH_INPUT then complete STATUS_BUFFER_TOO_SMALL g
      else if \<not> TadIsCallerProtectedAgent env g then complete STATUS_ACCESS_DENIED g
      else case buf of
        None \<Rightarrow> Inl NULL_POINTER_DEREFERENCE
      | Some stl \<Rightarrow>
          if stl_Enable stl \<noteq> 0
          then complete STATUS_SUCCESS (g\<lparr> StealthActive := 1, StealthFlags := stl_Flags stl \<rparr>)
          else complete STATUS_SUCCESS (g\<lparr> StealthActive := 0, StealthFlags := 0 \<rparr>))"

subsection \<open>SET\_BANNED\_APPS\<close>

text \<open>
  The inner loop: the number of characters of a row before the first NUL, at most
  \<open>TAD_MAX_IMAGE_NAME_LEN\<close>.
\<close>

function image_name_srcLen :: "WCHAR list \<Rightarrow> nat \<Rightarrow> nat \<Rightarrow> nat" where
  "image_name_srcLen row j srcLen =
     (if j < TAD_MAX_IMAGE_NAME_LEN
      then (if row ! j = 0 then srcLen else image_name_srcLen row (j + 1) (srcLen + 1))
      else srcLen)"
  by pat_completeness auto
termination
  by (relation "measure (\<lambda>(row, j, srcLen). TAD_MAX_IMAGE_NAME_LEN - j)") auto

text \<open>
  The outer loop, from index \<open>i\<close>. A valid name is stored in slot \<open>i\<close>, the index of the
  input row, and \<open>BannedAppCount\<close> is incremented; an invalid row is passed over.
\<close>

function banned_apps_loop ::
    "TAD_BANNED_APPS_INPUT \<Rightarrow> nat \<Rightarrow> TAD_DRIVER_GLOBALS \<Rightarrow> TAD_DRIVER_GLOBALS" where
  "banned_apps_loop p i g =
     (if i < unat (Count p)
      then
        (if image_name_srcLen (ImageNames p ! i) 0 0 = 0 \<or>
            TAD_MAX_IMAGE_NAME_LEN \<le> image_name_srcLen (ImageNames p ! i) 0 0
         then banned_apps_loop p (i + 1) g
         else banned_apps_loop p (i + 1)
                (g\<lparr> BannedAppStorage :=
                      (BannedAppStorage g)
                        [i := RtlCopyMemory_wchars (BannedAppStorage g ! i) (ImageNames p ! i)
                                (image_name_srcLen (ImageNames p ! i) 0 0)],
                    BannedApps :=
                      (BannedApps g)
                        [i := \<lparr> Length = of_nat (image_name_srcLen (ImageNames p ! i) 0 0 * 2),
                                MaximumLength = of_nat (TAD_MAX_IMAGE_NAME_LEN * 2),
                                Buffer = Some (RtlCopyMemory_wchars (BannedAppStorage g ! i)
                                                 (ImageNames p ! i)
                                                 (image_name_srcLen (ImageNames p ! i) 0 0)) \<rparr>],
                    BannedAppCount := BannedAppCount g + 1 \<rparr>))
      else g)"
  by pat_completeness auto
termination
  by (relation "measure (\<lambda>(p, i, g). unat (Count p) - i)") auto

definition dispatch_SET_BANNED_APPS ::
    "kernel_env \<Rightarrow> TAD_DRIVER_GLOBALS \<Rightarrow> ULONG \<Rightarrow> TAD_BANNED_APPS_INPUT option \<Rightarrow> dispatch_result" where
  "dispatch_SET_BANNED_APPS env g inLen buf =
     (if inLen < sizeof_TAD_BANNED_APPS_INPUT then complete STATUS_BUFFER_TOO_SMALL g
      else if \<not> TadIsCallerProtectedAgent env g then complete STATUS_ACCESS_DENIED g
      else case buf of
        None \<Rightarrow> Inl NULL_POINTER_DEREFERENCE
      | Some p \<Rightarrow>
          if of_nat TAD_MAX_BANNED_APPS < Count p then complete STATUS_INVALID_PARAMETER g
          else
            complete STATUS_SUCCESS
              (banned_apps_loop p 0
                 (g\<lparr> BannedAppStorage :=
                       replicate TAD_MAX_BANNED_APPS (replicate TAD_MAX_IMAGE_NAME_LEN 0),
                     BannedApps := replicate TAD_MAX_BANNED_APPS zero_UNICODE_STRING,
                     BannedAppCount := 0 \<rparr>)))"

subsection \<open>The switch\<close>

definition TadDispatchDeviceControl ::
    "kernel_env \<Rightarrow> TAD_DRIVER_GLOBALS \<Rightarrow> irp \<Rightarrow> dispatch_result" where
  "TadDispatchDeviceControl env g Irp =
     (let inLen = InputBufferLength Irp; outLen = OutputBufferLength Irp in
      case Request Irp of
        IOCTL_TAD_PROTECT_PID buf \<Rightarrow> dispatch_PROTECT_PID env g inLen buf
      | IOCTL_TAD_UNLOCK buf \<Rightarrow> dispatch_UNLOCK env g inLen buf
      | IOCTL_TAD_HEARTBEAT buf \<Rightarrow> dispatch_HEARTBEAT env g outLen buf
      | IOCTL_TAD_SET_USER_ROLE buf \<Rightarrow> dispatch_SET_USER_ROLE env g inLen buf
      | IOCTL_TAD_SET_POLICY buf \<Rightarrow> dispatch_SET_POLICY env g inLen buf
      | IOCTL_TAD_READ_ALERT buf \<Rightarrow> dispatch_READ_ALERT env g outLen buf
      | IOCTL_TAD_HARD_LOCK buf \<Rightarrow> dispatch_HARD_LOCK env g inLen buf
      | IOCTL_TAD_PROTECT_UI buf \<Rightarrow> dispatch_PROTECT_UI env g inLen buf
      | IOCTL_TAD_STEALTH buf \<Rightarrow> dispatch_STEALTH env g inLen buf
      | IOCTL_TAD_SET_BANNED_APPS buf \<Rightarrow> dispatch_SET_BANNED_APPS env g inLen buf
      | IOCTL_UNKNOWN code \<Rightarrow> complete STATUS_INVALID_DEVICE_REQUEST g)"

section \<open>Handle interception\<close>

text \<open>
  The part of \<open>OB_PRE_OPERATION_INFORMATION\<close> the callbacks read. \<open>ObjectProcessId\<close> is
  what the code computes from \<open>Object\<close>: \<open>PsGetProcessId\<close> of a process object, and of the
  owning process of a thread object. \<open>DesiredAccess\<close> is the member of the parameter
  union that belongs to \<open>Operation\<close>. The callbacks are registered for handle creation
  and duplication only; \<open>OB_OPERATION_OTHER\<close> stands for any other operation code.
\<close>

datatype OB_OPERATION =
    OB_OPERATION_HANDLE_CREATE
  | OB_OPERATION_HANDLE_DUPLICATE
  | OB_OPERATION_OTHER

datatype POBJECT_TYPE = PsProcessType | PsThreadType | OtherObjectType

datatype OB_PREOP_CALLBACK_STATUS = OB_PREOP_SUCCESS

record OB_PRE_OPERATION_INFORMATION =
  Operation :: OB_OPERATION
  ObjectType :: POBJECT_TYPE
  ObjectProcessId :: HANDLE
  DesiredAccess :: ACCESS_MASK

text \<open>
  Both callbacks take the global state, \<open>PsGetCurrentProcessId()\<close> and the operation,
  and return the operation as they leave it.
\<close>

definition TadObProcessPreCallback ::
    "TAD_DRIVER_GLOBALS \<Rightarrow> HANDLE \<Rightarrow> OB_PRE_OPERATION_INFORMATION \<Rightarrow>
       OB_PREOP_CALLBACK_STATUS \<times> OB_PRE_OPERATION_INFORMATION" where
  "TadObProcessPreCallback g cPid OpInfo =
     (let pPid = (if ProtectedPid g = 0 then ProtectedUiPid g else ProtectedPid g) in
      if pPid = 0 then (OB_PREOP_SUCCESS, OpInfo)
      else if ObjectType OpInfo \<noteq> PsProcessType then (OB_PREOP_SUCCESS, OpInfo)
      else
        let tPid = ObjectProcessId OpInfo;
            svcPid = ProtectedPid g;
            uiPid = ProtectedUiPid g
        in if tPid \<noteq> svcPid \<and> tPid \<noteq> uiPid then (OB_PREOP_SUCCESS, OpInfo)
           else if cPid = svcPid \<or> cPid = uiPid then (OB_PREOP_SUCCESS, OpInfo)
           else if Operation OpInfo = OB_OPERATION_HANDLE_CREATE
           then (OB_PREOP_SUCCESS,
                 OpInfo\<lparr> DesiredAccess := DesiredAccess OpInfo AND NOT TAD_STRIPPED_PROCESS_RIGHTS \<rparr>)
           else if Operation OpInfo = OB_OPERATION_HANDLE_DUPLICATE
           then (OB_PREOP_SUCCESS,
                 OpInfo\<lparr> DesiredAccess := DesiredAccess OpInfo AND NOT TAD_STRIPPED_PROCESS_RIGHTS \<rparr>)
           else (OB_PREOP_SUCCESS, OpInfo))"

definition TadObThreadPreCallback ::
    "TAD_DRIVER_GLOBALS \<Rightarrow> HANDLE \<Rightarrow> OB_PRE_OPERATION_INFORMATION \<Rightarrow>
       OB_PREOP_CALLBACK_STATUS \<times> OB_PRE_OPERATION_INFORMATION" where
  "TadObThreadPreCallback g cPid OpInfo =
     (let pPid = (if ProtectedPid g = 0 then ProtectedUiPid g else ProtectedPid g) in
      if pPid = 0 then (OB_PREOP_SUCCESS, OpInfo)
      else if ObjectType OpInfo \<noteq> PsThreadType then (OB_PREOP_SUCCESS, OpInfo)
      else
        let oPid = ObjectProcessId OpInfo;
            svcPid = ProtectedPid g;
            uiPid = ProtectedUiPid g
        in if oPid \<noteq> svcPid \<and> oPid \<noteq> uiPid then (OB_PREOP_SUCCESS, OpInfo)
           else if cPid = svcPid \<or> cPid = uiPid then (OB_PREOP_SUCCESS, OpInfo)
           else if Operation OpInfo = OB_OPERATION_HANDLE_CREATE
           then (OB_PREOP_SUCCESS,
                 OpInfo\<lparr> DesiredAccess := DesiredAccess OpInfo AND NOT TAD_STRIPPED_THREAD_RIGHTS \<rparr>)
           else if Operation OpInfo = OB_OPERATION_HANDLE_DUPLICATE
           then (OB_PREOP_SUCCESS,
                 OpInfo\<lparr> DesiredAccess := DesiredAccess OpInfo AND NOT TAD_STRIPPED_THREAD_RIGHTS \<rparr>)
           else (OB_PREOP_SUCCESS, OpInfo))"

text \<open>
  The vocabulary of the spec over the raw slots: a slot is set when it is not \<open>NULL\<close>,
  and a process is in a slot when the slot is set and holds its identifier.
\<close>

definition slot_set :: "HANDLE \<Rightarrow> bool" where
  "slot_set slot = (slot \<noteq> 0)"

definition in_slot :: "HANDLE \<Rightarrow> HANDLE \<Rightarrow> bool" where
  "in_slot pid slot = (slot_set slot \<and> pid = slot)"

definition is_protected_pid :: "TAD_DRIVER_GLOBALS \<Rightarrow> HANDLE \<Rightarrow> bool" where
  "is_protected_pid g pid = (in_slot pid (ProtectedPid g) \<or> in_slot pid (ProtectedUiPid g))"

section \<open>Filesystem intercept\<close>

text \<open>
  The set-information request as the pre-operation callback sees it. \<open>InfoBuffer\<close> holds
  the raw bytes of the information structure (\<open>None\<close> for \<open>NULL\<close>); the \<open>DeleteFile\<close>
  field of \<open>FILE_DISPOSITION_INFORMATION\<close> is its first byte, which a buffer of that class
  always has. The name of the target
  comes from the filter manager: \<open>flt_name_query\<close> is what \<open>FltGetFileNameInformation\<close>
  and \<open>FltParseFileNameInformation\<close> return for this request.
\<close>

datatype FILE_INFORMATION_CLASS =
    FileDispositionInformation
  | FileDispositionInformationEx
  | FileRenameInformation
  | FileRenameInformationEx
  | FileOtherInformation nat

datatype FLT_PREOP_CALLBACK_STATUS = FLT_PREOP_SUCCESS_NO_CALLBACK | FLT_PREOP_COMPLETE

record FLT_CALLBACK_DATA =
  FileInformationClass :: FILE_INFORMATION_CLASS
  InfoBuffer :: "UCHAR list option"
  Data_IoStatus_Status :: NTSTATUS
  Data_IoStatus_Information :: nat

record FLT_FILE_NAME_INFORMATION =
  FinalComponent :: UNICODE_STRING

record flt_name_query =
  GetFileNameStatus :: NTSTATUS
  NameInformation :: "FLT_FILE_NAME_INFORMATION option"
  ParseFileNameStatus :: NTSTATUS

definition NT_SUCCESS :: "NTSTATUS \<Rightarrow> bool" where
  "NT_SUCCESS status = (status = STATUS_SUCCESS)"

text \<open>The \<open>switch\<close> on the information class: \<open>None\<close> is its \<open>default\<close> branch.\<close>

definition classify_set_information :: "FLT_CALLBACK_DATA \<Rightarrow> (bool \<times> bool) option" where
  "classify_set_information Data =
     (case FileInformationClass Data of
        FileDispositionInformation \<Rightarrow>
          (case InfoBuffer Data of
             None \<Rightarrow> Some (False, False)
           | Some d \<Rightarrow> Some (d ! 0 \<noteq> 0, False))
      | FileDispositionInformationEx \<Rightarrow> Some (True, False)
      | FileRenameInformation \<Rightarrow> Some (False, True)
      | FileRenameInformationEx \<Rightarrow> Some (False, True)
      | FileOtherInformation c \<Rightarrow> None)"

definition TadPreSetInformationCallback ::
    "(WCHAR \<Rightarrow> WCHAR) \<Rightarrow> flt_name_query \<Rightarrow> FLT_CALLBACK_DATA \<Rightarrow>
       FLT_PREOP_CALLBACK_STATUS \<times> FLT_CALLBACK_DATA" where
  "TadPreSetInformationCallback upc q Data =
     (case classify_set_information Data of
        None \<Rightarrow> (FLT_PREOP_SUCCESS_NO_CALLBACK, Data)
      | Some (isDeletion, isRename) \<Rightarrow>
          if \<not> isDeletion \<and> \<not> isRename then (FLT_PREOP_SUCCESS_NO_CALLBACK, Data)
          else if \<not> NT_SUCCESS (GetFileNameStatus q) \<or> NameInformation q = None
          then (FLT_PREOP_SUCCESS_NO_CALLBACK, Data)
          else if \<not> NT_SUCCESS (ParseFileNameStatus q)
          then (FLT_PREOP_SUCCESS_NO_CALLBACK, Data)
          else if TadIsProtectedFilename upc (FinalComponent (the (NameInformation q)))
          then (FLT_PREOP_COMPLETE,
                Data\<lparr> Data_IoStatus_Status := STATUS_ACCESS_DENIED,
                      Data_IoStatus_Information := 0 \<rparr>)
          else (FLT_PREOP_SUCCESS_NO_CALLBACK, Data))"


definition resolved_final_component :: "flt_name_query \<Rightarrow> UNICODE_STRING option" where
  "resolved_final_component q =
     (if NT_SUCCESS (GetFileNameStatus q) \<and> NT_SUCCESS (ParseFileNameStatus q)
      then map_option FinalComponent (NameInformation q) else None)"

definition equal_ignoring_case :: "(WCHAR \<Rightarrow> WCHAR) \<Rightarrow> WCHAR list \<Rightarrow> WCHAR list \<Rightarrow> bool" where
  "equal_ignoring_case upc a b = (map upc a = map upc b)"

definition protected_filename :: "(WCHAR \<Rightarrow> WCHAR) \<Rightarrow> WCHAR list \<Rightarrow> bool" where
  "protected_filename upc name =
     (equal_ignoring_case upc name (wstr ''TAD.RV.sys'') \<or>
      equal_ignoring_case upc name (wstr ''TAD.RV.exe'') \<or>
      equal_ignoring_case upc name (wstr ''TadBridgeService.exe''))"

definition deny_set_information :: "FLT_CALLBACK_DATA \<Rightarrow> FLT_PREOP_CALLBACK_STATUS \<times> FLT_CALLBACK_DATA" where
  "deny_set_information Data =
     (FLT_PREOP_COMPLETE,
      Data\<lparr> Data_IoStatus_Status := STATUS_ACCESS_DENIED, Data_IoStatus_Information := 0 \<rparr>)"

section \<open>Process-launch intercept\<close>

record PS_CREATE_NOTIFY_INFO =
  ImageFileName :: "UNICODE_STRING option"
  CreationStatus :: NTSTATUS

text \<open>
  The loop that finds the index after the last backslash among the first \<open>n\<close>
  characters. \<open>k\<close> and \<open>lastSep\<close> are \<open>USHORT\<close> in the code; \<open>n\<close> is half a \<open>USHORT\<close>, so
  neither can wrap.
\<close>

function last_separator :: "WCHAR list \<Rightarrow> nat \<Rightarrow> nat \<Rightarrow> nat \<Rightarrow> nat" where
  "last_separator buf n k lastSep =
     (if k < n
      then last_separator buf n (k + 1) (if buf ! k = 0x5C then k + 1 else lastSep)
      else lastSep)"
  by pat_completeness auto
termination
  by (relation "measure (\<lambda>(buf, n, k, lastSep). n - k)") auto

text \<open>The loop over the first \<open>BannedAppCount\<close> slots, left at the first match.\<close>

function banned_apps_match ::
    "(WCHAR \<Rightarrow> WCHAR) \<Rightarrow> TAD_DRIVER_GLOBALS \<Rightarrow> UNICODE_STRING \<Rightarrow> nat \<Rightarrow> bool" where
  "banned_apps_match upc g component i =
     (if i < unat (BannedAppCount g)
      then (if RtlEqualUnicodeString upc component (BannedApps g ! i) True then True
            else banned_apps_match upc g component (i + 1))
      else False)"
  by pat_completeness auto
termination
  by (relation "measure (\<lambda>(upc, g, component, i). unat (BannedAppCount g) - i)") auto

text \<open>
  \<open>TadProcessNotifyCallback\<close> returns \<open>CreateInfo\<close> as it leaves it; \<open>None\<close> is the \<open>NULL\<close>
  of a process termination.
\<close>

definition TadProcessNotifyCallback ::
    "(WCHAR \<Rightarrow> WCHAR) \<Rightarrow> TAD_DRIVER_GLOBALS \<Rightarrow> PS_CREATE_NOTIFY_INFO option \<Rightarrow>
       PS_CREATE_NOTIFY_INFO option" where
  "TadProcessNotifyCallback upc g CreateInfo =
     (case CreateInfo of
        None \<Rightarrow> None
      | Some ci \<Rightarrow>
          (case ImageFileName ci of
             None \<Rightarrow> Some ci
           | Some name \<Rightarrow>
               (case Buffer name of
                  None \<Rightarrow> Some ci
                | Some buf \<Rightarrow>
                    if Length name = 0 then Some ci
                    else if pol_Flags (CurrentPolicy g) AND TAD_POLICY_FLAG_BLOCK_APPS = 0
                    then Some ci
                    else
                      let lastSep = last_separator buf (unat (Length name) div 2) 0 0;
                          component =
                            \<lparr> Length = Length name - of_nat (lastSep * 2),
                              MaximumLength = Length name - of_nat (lastSep * 2),
                              Buffer = Some (drop lastSep buf) \<rparr>
                      in if Length component = 0 then Some ci
                         else if banned_apps_match upc g component 0
                         then Some (ci\<lparr> CreationStatus := STATUS_ACCESS_DENIED \<rparr>)
                         else Some ci)))"

text \<open>
  The vocabulary of the spec. The final path component is everything after the last
  backslash. The banned-app set is what the first \<open>BannedAppCount\<close> slots hold,
  without the empty ones (a pattern is a non-empty filename).
\<close>

definition final_path_component :: "WCHAR list \<Rightarrow> WCHAR list" where
  "final_path_component path = rev (takeWhile (\<lambda>c. c \<noteq> 0x5C) (rev path))"

definition banned_app_set :: "TAD_DRIVER_GLOBALS \<Rightarrow> WCHAR list list" where
  "banned_app_set g =
     filter (\<lambda>name. name \<noteq> []) (map us_chars (take (unat (BannedAppCount g)) (BannedApps g)))"

definition block_apps_enabled :: "TAD_DRIVER_GLOBALS \<Rightarrow> bool" where
  "block_apps_enabled g =
     (PolicyValid g \<noteq> 0 \<and> pol_Flags (CurrentPolicy g) AND TAD_POLICY_FLAG_BLOCK_APPS \<noteq> 0)"

text \<open>The characters of the image path of a process creation; none when it has no name.\<close>

definition image_path :: "PS_CREATE_NOTIFY_INFO \<Rightarrow> WCHAR list" where
  "image_path ci = (case ImageFileName ci of None \<Rightarrow> [] | Some name \<Rightarrow> us_chars name)"

definition matches_banned_app :: "(WCHAR \<Rightarrow> WCHAR) \<Rightarrow> TAD_DRIVER_GLOBALS \<Rightarrow> WCHAR list \<Rightarrow> bool" where
  "matches_banned_app upc g filename =
     list_ex (\<lambda>entry. equal_ignoring_case upc filename entry) (banned_app_set g)"

text \<open>
  What holds in every reachable state: the policy is all zero until a SetPolicy
  request is accepted, and the banned-app table has its 32 slots, a count within
  them, and well-formed strings in every slot.
\<close>

definition globals_invariant :: "TAD_DRIVER_GLOBALS \<Rightarrow> bool" where
  "globals_invariant g =
     ((PolicyValid g \<noteq> 0 \<or> pol_Flags (CurrentPolicy g) = 0) \<and>
      length (BannedApps g) = TAD_MAX_BANNED_APPS \<and>
      unat (BannedAppCount g) \<le> TAD_MAX_BANNED_APPS \<and>
      list_all wf_unicode_string (BannedApps g))"

section \<open>Reachable states\<close>

text \<open>
  The states the driver can be in while it is loaded: the one \<open>DriverEntry\<close> leaves
  when it succeeds, and every state that a completed control request or a watchdog
  tick leads to from a reachable one. The interception callbacks do not write the
  global state.
\<close>

inductive reachable :: "TAD_DRIVER_GLOBALS \<Rightarrow> bool" where
  reachable_DriverEntry:
    "DriverEntry STATUS_SUCCESS obHandle fltHandle = (STATUS_SUCCESS, g) \<Longrightarrow> reachable g"
| reachable_DeviceControl:
    "reachable g \<Longrightarrow> wf_request (Request Irp) \<Longrightarrow>
     TadDispatchDeviceControl env g Irp = Inr (done, g') \<Longrightarrow> reachable g'"
| reachable_HeartbeatDpc:
    "reachable g \<Longrightarrow> TadHeartbeatDpcRoutine g = (lost, g') \<Longrightarrow> reachable g'"

section \<open>Vocabulary of the command bridge\<close>

text \<open>
  The opcodes whose handler tests \<open>AgentProcess\<close> before it asks who the caller is, and
  the opcodes whose handler asks \<open>TadIsCallerProtectedAgent\<close> outright.
\<close>

definition checked_once_registered :: "ioctl_request \<Rightarrow> bool" where
  "checked_once_registered r =
     (case r of
        IOCTL_TAD_UNLOCK buf \<Rightarrow> True
      | IOCTL_TAD_SET_USER_ROLE buf \<Rightarrow> True
      | IOCTL_TAD_SET_POLICY buf \<Rightarrow> True
      | _ \<Rightarrow> False)"

definition agent_only :: "ioctl_request \<Rightarrow> bool" where
  "agent_only r =
     (case r of
        IOCTL_TAD_HARD_LOCK buf \<Rightarrow> True
      | IOCTL_TAD_PROTECT_UI buf \<Rightarrow> True
      | IOCTL_TAD_STEALTH buf \<Rightarrow> True
      | IOCTL_TAD_SET_BANNED_APPS buf \<Rightarrow> True
      | _ \<Rightarrow> False)"

text \<open>
  The state in which the process that issues the request is the registered agent, and
  a state with the registration taken off again. Unlock is locked out when the failure
  counter has reached its limit and the clock has not reached \<open>LockoutUntil\<close>.
\<close>

definition as_registered_agent :: "kernel_env \<Rightarrow> TAD_DRIVER_GLOBALS \<Rightarrow> TAD_DRIVER_GLOBALS" where
  "as_registered_agent env g = g\<lparr> AgentProcess := Some (CurrentProcess env) \<rparr>"

definition unregistered :: "TAD_DRIVER_GLOBALS \<Rightarrow> TAD_DRIVER_GLOBALS" where
  "unregistered g = g\<lparr> AgentProcess := None \<rparr>"

definition locked_out :: "kernel_env \<Rightarrow> TAD_DRIVER_GLOBALS \<Rightarrow> bool" where
  "locked_out env g =
     (TAD_MAX_UNLOCK_ATTEMPTS \<le>s FailedUnlockAttempts g \<and> SystemTime env <s LockoutUntil g)"

text \<open>The \<open>sizeof\<close> that the handler of an input opcode compares \<open>inLen\<close> with.\<close>

definition required_input_size :: "ioctl_request \<Rightarrow> ULONG" where
  "required_input_size r =
     (case r of
        IOCTL_TAD_PROTECT_PID buf \<Rightarrow> sizeof_TAD_PROTECT_PID_INPUT
      | IOCTL_TAD_UNLOCK buf \<Rightarrow> sizeof_TAD_UNLOCK_INPUT
      | IOCTL_TAD_SET_USER_ROLE buf \<Rightarrow> sizeof_TAD_SET_USER_ROLE_INPUT
      | IOCTL_TAD_SET_POLICY buf \<Rightarrow> sizeof_TAD_POLICY_BUFFER
      | IOCTL_TAD_HARD_LOCK buf \<Rightarrow> sizeof_TAD_HARD_LOCK_INPUT
      | IOCTL_TAD_PROTECT_UI buf \<Rightarrow> sizeof_TAD_PROTECT_UI_INPUT
      | IOCTL_TAD_STEALTH buf \<Rightarrow> sizeof_TAD_STEALTH_INPUT
      | IOCTL_TAD_SET_BANNED_APPS buf \<Rightarrow> sizeof_TAD_BANNED_APPS_INPUT
      | _ \<Rightarrow> 0)"

text \<open>A request that carries an input buffer only.\<close>

definition input_irp :: "ULONG \<Rightarrow> ioctl_request \<Rightarrow> irp" where
  "input_irp inLen r = \<lparr> InputBufferLength = inLen, OutputBufferLength = 0, Request = r \<rparr>"

text \<open>The status of a completed request; a fault completes nothing.\<close>

definition status_of :: "dispatch_result \<Rightarrow> NTSTATUS option" where
  "status_of r = (case r of Inl f \<Rightarrow> None | Inr (c, g) \<Rightarrow> Some (IoStatus_Status c))"

definition state_of :: "dispatch_result \<Rightarrow> TAD_DRIVER_GLOBALS option" where
  "state_of r = (case r of Inl f \<Rightarrow> None | Inr (c, g) \<Rightarrow> Some g)"

section \<open>Sequences of requests\<close>


definition unlock_irp :: "UCHAR list \<Rightarrow> irp" where
  "unlock_irp key = input_irp 32 (IOCTL_TAD_UNLOCK (Some \<lparr> AuthKey = key \<rparr>))"

text \<open>The caller-identity check of Unlock lets the request through.\<close>

definition caller_passes :: "kernel_env \<Rightarrow> TAD_DRIVER_GLOBALS \<Rightarrow> bool" where
  "caller_passes env g = (AgentProcess g = None \<or> AgentProcess g = Some (CurrentProcess env))"


section \<open>Sample inputs for the concrete evaluations\<close>

text \<open>
  A kernel environment in which process object \<open>0x1000\<close> has identifier 4242 and issues
  the request, the state that \<open>DriverEntry\<close> leaves, and that state after the agent
  registered itself with ProtectPid.
\<close>

definition sample_env :: kernel_env where
  "sample_env =
     \<lparr> CurrentProcess = 0x1000, SystemTime = 1000, SystemTimeAtLockout = 1000,
       PsLookupProcessByProcessId = (\<lambda>pid. if pid = 4242 then Some 0x1000 else None) \<rparr>"

definition sample_loaded :: TAD_DRIVER_GLOBALS where
  "sample_loaded = snd (DriverEntry STATUS_SUCCESS (Some 1) (Some 2))"

definition sample_registered :: TAD_DRIVER_GLOBALS where
  "sample_registered = sample_loaded\<lparr> AgentProcess := Some 0x1000, ProtectedPid := 4242 \<rparr>"

text \<open>
  A name query that resolves to the given final component, a set-information request
  of a given class with the given information bytes, and a handle creation on a
  target with a requested access mask.
\<close>

definition sample_name_query :: "WCHAR list \<Rightarrow> flt_name_query" where
  "sample_name_query name =
     \<lparr> GetFileNameStatus = STATUS_SUCCESS,
       NameInformation = Some \<lparr> FinalComponent = RtlInitUnicodeString name \<rparr>,
       ParseFileNameStatus = STATUS_SUCCESS \<rparr>"

definition sample_set_information :: "FILE_INFORMATION_CLASS \<Rightarrow> UCHAR list \<Rightarrow> FLT_CALLBACK_DATA" where
  "sample_set_information cls info =
     \<lparr> FileInformationClass = cls, InfoBuffer = Some info,
       Data_IoStatus_Status = STATUS_SUCCESS, Data_IoStatus_Information = 0 \<rparr>"

definition sample_open :: "HANDLE \<Rightarrow> POBJECT_TYPE \<Rightarrow> ACCESS_MASK \<Rightarrow> OB_PRE_OPERATION_INFORMATION" where
  "sample_open target ty access =
     \<lparr> Operation = OB_OPERATION_HANDLE_CREATE, ObjectType = ty,
       ObjectProcessId = target, DesiredAccess = access \<rparr>"

text \<open>
  A SetBannedApps payload from a list of names: each name NUL-padded to its 64
  characters, the unused rows zero. A policy with the block-apps flag, and the
  registered sample state with that policy in force. A process creation with the
  given image path, and a path from its components.
\<close>

definition image_name_row :: "WCHAR list \<Rightarrow> WCHAR list" where
  "image_name_row name = name @ replicate (TAD_MAX_IMAGE_NAME_LEN - length name) 0"

definition banned_apps_input :: "WCHAR list list \<Rightarrow> TAD_BANNED_APPS_INPUT" where
  "banned_apps_input names =
     \<lparr> Count = of_nat (length names),
       ImageNames = map image_name_row names @
                    replicate (TAD_MAX_BANNED_APPS - length names)
                      (replicate TAD_MAX_IMAGE_NAME_LEN 0) \<rparr>"

definition sample_policy :: TAD_POLICY_BUFFER where
  "sample_policy = zero_TAD_POLICY_BUFFER\<lparr> Version := 1, pol_Flags := TAD_POLICY_FLAG_BLOCK_APPS \<rparr>"

definition sample_enforcing :: TAD_DRIVER_GLOBALS where
  "sample_enforcing = sample_registered\<lparr> CurrentPolicy := sample_policy, PolicyValid := 1 \<rparr>"

definition nt_path :: "WCHAR list list \<Rightarrow> WCHAR list" where
  "nt_path components = concat (map (\<lambda>c. 0x5C # c) components)"

definition sample_launch :: "WCHAR list \<Rightarrow> PS_CREATE_NOTIFY_INFO" where
  "sample_launch path =
     \<lparr> ImageFileName = Some (RtlInitUnicodeString path), CreationStatus = STATUS_SUCCESS \<rparr>"

text \<open>
  The state a request leaves (the state it found, when the request faults), and the
  SetBannedApps request of the agent that carries the given names.
\<close>

definition after_request :: "kernel_env \<Rightarrow> TAD_DRIVER_GLOBALS \<Rightarrow> irp \<Rightarrow> TAD_DRIVER_GLOBALS" where
  "after_request env g Irp =
     (case TadDispatchDeviceControl env g Irp of Inl f \<Rightarrow> g | Inr (c, g') \<Rightarrow> g')"

definition set_banned_apps_irp :: "WCHAR list list \<Rightarrow> irp" where
  "set_banned_apps_irp names =
     input_irp 4100 (IOCTL_TAD_SET_BANNED_APPS (Some (banned_apps_input names)))"

section \<open>Proofs: the secret comparison\<close>

declare TadVerifyAuthKey_decode.simps [simp del]
declare TadVerifyAuthKey_compare.simps [simp del]

lemma TadVerifyAuthKey_decode_run:
  "TadVerifyAuthKey_decode 0 (replicate TAD_AUTH_KEY_SIZE 0) 0 = (deobfuscated_key, 32)"
  by (simp add: TadVerifyAuthKey_decode.simps TAD_AUTH_KEY_SIZE_def deobfuscated_key_def
        TadObfuscatedKey_def TAD_KEY_XOR_MASK_def eval_nat_numeral)

lemma word_xor_eq_0_iff: "(a XOR b = 0) = (a = (b :: 'a::len word))"
  by (auto simp: bit_eq_iff bit_xor_iff)

lemma fold_or_eq_0_iff:
  "fold (\<lambda>j acc. acc OR f j) js (a :: UCHAR) = 0 \<longleftrightarrow> a = 0 \<and> (\<forall>j \<in> set js. f j = 0)"
  by (induction js arbitrary: a) (auto simp: or_eq_0_iff)

text \<open>
  The second loop never looks at \<open>diff\<close> before it ends: it is a fold over all 32
  positions, and its operation count depends on the start index alone.
\<close>

lemma TadVerifyAuthKey_compare_fold:
  "TadVerifyAuthKey_compare d p i diff n =
     (fold (\<lambda>j acc. acc OR ((d ! j) XOR (p ! j))) [i..<TAD_AUTH_KEY_SIZE] diff,
      n + 2 * (TAD_AUTH_KEY_SIZE - i))"
proof (induction d p i diff n rule: TadVerifyAuthKey_compare.induct)
  case (1 d p i diff n)
  show ?case
  proof (cases "i < TAD_AUTH_KEY_SIZE")
    case True
    then show ?thesis
      using "1.IH" [OF True]
      by (subst TadVerifyAuthKey_compare.simps) (simp add: upt_conv_Cons)
  next
    case False
    then show ?thesis
      by (subst TadVerifyAuthKey_compare.simps) simp
  qed
qed

lemma TadVerifyAuthKey_counted_eq:
  "TadVerifyAuthKey_counted k = ((\<forall>j < TAD_AUTH_KEY_SIZE. deobfuscated_key ! j = k ! j), 96)"
  by (simp add: TadVerifyAuthKey_counted_def TadVerifyAuthKey_decode_run
        TadVerifyAuthKey_compare_fold fold_or_eq_0_iff word_xor_eq_0_iff)
     (auto simp: TAD_AUTH_KEY_SIZE_def)

lemma length_deobfuscated_key: "length deobfuscated_key = TAD_AUTH_KEY_SIZE"
  by (simp add: deobfuscated_key_def TadObfuscatedKey_def TAD_AUTH_KEY_SIZE_def)

text \<open>
  Claim C8. \<open>TadVerifyAuthKey\<close> returns true exactly when the 32 bytes presented are
  the de-obfuscated stored key, byte for byte, and it performs the same number of
  byte operations (96: 32 XORs to decode, 32 XORs and 32 ORs to compare) whatever the
  bytes are; there is no exit on the first mismatch.
\<close>

theorem TadVerifyAuthKey_exact_and_constant_cost:
  "length ProvidedKey = TAD_AUTH_KEY_SIZE \<Longrightarrow>
     (TadVerifyAuthKey ProvidedKey \<longleftrightarrow> ProvidedKey = deobfuscated_key) \<and>
     snd (TadVerifyAuthKey_counted ProvidedKey) = 96"
  using length_deobfuscated_key
  by (auto simp: TadVerifyAuthKey_def TadVerifyAuthKey_counted_eq list_eq_iff_nth_eq)

text \<open>
  The theorem at three keys: the right one, one that first differs at position 0 and
  one that first differs at position 31. The two wrong keys cost the same.
\<close>

theorem TadVerifyAuthKey_exact_and_constant_cost_witness:
  "length (deobfuscated_key[0 := 0]) = TAD_AUTH_KEY_SIZE \<and>
   length (deobfuscated_key[31 := 0]) = TAD_AUTH_KEY_SIZE \<and>
   TadVerifyAuthKey deobfuscated_key \<and>
   \<not> TadVerifyAuthKey (deobfuscated_key[0 := 0]) \<and>
   \<not> TadVerifyAuthKey (deobfuscated_key[31 := 0]) \<and>
   snd (TadVerifyAuthKey_counted (deobfuscated_key[0 := 0])) =
     snd (TadVerifyAuthKey_counted (deobfuscated_key[31 := 0]))"
proof -
  have l0: "length (deobfuscated_key[0 := 0]) = TAD_AUTH_KEY_SIZE"
    and l31: "length (deobfuscated_key[31 := 0]) = TAD_AUTH_KEY_SIZE"
    by (simp_all add: length_deobfuscated_key)
  have d0: "deobfuscated_key[0 := 0] \<noteq> deobfuscated_key"
    and d31: "deobfuscated_key[31 := 0] \<noteq> deobfuscated_key"
    by (simp_all add: deobfuscated_key_def TadObfuscatedKey_def TAD_KEY_XOR_MASK_def)
  show ?thesis
    using TadVerifyAuthKey_exact_and_constant_cost [OF length_deobfuscated_key]
      TadVerifyAuthKey_exact_and_constant_cost [OF l0]
      TadVerifyAuthKey_exact_and_constant_cost [OF l31] l0 l31 d0 d31
    by simp
qed

section \<open>Proofs: the command bridge\<close>

lemmas dispatch_defs =
  TadDispatchDeviceControl_def dispatch_PROTECT_PID_def dispatch_UNLOCK_def
  dispatch_HEARTBEAT_def dispatch_SET_USER_ROLE_def dispatch_SET_POLICY_def
  dispatch_READ_ALERT_def dispatch_HARD_LOCK_def dispatch_PROTECT_UI_def
  dispatch_STEALTH_def dispatch_SET_BANNED_APPS_def

lemmas sizeof_defs =
  sizeof_TAD_PROTECT_PID_INPUT_def sizeof_TAD_UNLOCK_INPUT_def
  sizeof_TAD_HEARTBEAT_OUTPUT_def sizeof_TAD_SET_USER_ROLE_INPUT_def
  sizeof_TAD_POLICY_BUFFER_def sizeof_TAD_ALERT_OUTPUT_def
  sizeof_TAD_HARD_LOCK_INPUT_def sizeof_TAD_PROTECT_UI_INPUT_def
  sizeof_TAD_STEALTH_INPUT_def sizeof_TAD_BANNED_APPS_INPUT_def

lemma status_of_complete [simp]: "status_of (complete st g) = Some st"
  by (simp add: status_of_def complete_def)

lemma state_of_complete [simp]: "state_of (complete st g) = Some g"
  by (simp add: state_of_def complete_def)

lemma status_of_Inl [simp]: "status_of (Inl f) = None"
  by (simp add: status_of_def)

lemma AgentProcess_sample_loaded: "AgentProcess sample_loaded = None"
  by (simp add: sample_loaded_def DriverEntry_def g_Tad_zero_def)

lemma AgentProcess_sample_registered: "AgentProcess sample_registered = Some 0x1000"
  by (simp add: sample_registered_def)

lemma CurrentProcess_sample_env: "CurrentProcess sample_env = 0x1000"
  by (simp add: sample_env_def)

text \<open>The registered sample state is the one ProtectPid(4242) leads to after loading.\<close>

lemma sample_registered_reached:
  "TadDispatchDeviceControl sample_env sample_loaded
     (input_irp 8 (IOCTL_TAD_PROTECT_PID (Some \<lparr> pid_TargetPid = 4242, pid_Flags = 0 \<rparr>)))
   = complete STATUS_SUCCESS sample_registered"
  by (simp add: dispatch_defs sizeof_defs input_irp_def sample_env_def sample_registered_def
        ULongToHandle_def)

lemma bootstrap_skips_check:
  "AgentProcess g = None \<Longrightarrow> checked_once_registered (Request Irp) \<Longrightarrow>
   TadDispatchDeviceControl (env\<lparr> CurrentProcess := c \<rparr>) g Irp = TadDispatchDeviceControl env g Irp"
  by (cases "Request Irp")
     (simp_all add: checked_once_registered_def dispatch_defs TadIsCallerProtectedAgent_def
        Let_def split: option.splits)

lemma agent_only_denied_unregistered:
  "AgentProcess g = None \<Longrightarrow> agent_only (Request Irp) \<Longrightarrow>
   \<not> InputBufferLength Irp < required_input_size (Request Irp) \<Longrightarrow>
   TadDispatchDeviceControl env g Irp = complete STATUS_ACCESS_DENIED g"
  by (cases "Request Irp")
     (simp_all add: agent_only_def required_input_size_def dispatch_defs
        TadIsCallerProtectedAgent_def)

lemma registered_needs_agent:
  "AgentProcess g = Some a \<Longrightarrow> checked_once_registered (Request Irp) \<or> agent_only (Request Irp) \<Longrightarrow>
   status_of (TadDispatchDeviceControl env g Irp) = Some STATUS_SUCCESS \<Longrightarrow>
   CurrentProcess env = a"
  by (cases "Request Irp")
     (auto simp: checked_once_registered_def agent_only_def dispatch_defs
        TadIsCallerProtectedAgent_def Let_def split: if_splits option.splits)

text \<open>
  While no agent is registered, Unlock, SetUserRole and SetPolicy are served as they
  would be for the registered agent: same status, same effect on the state.
\<close>

lemma bootstrap_served_as_agent:
  assumes "AgentProcess g = None" "checked_once_registered (Request Irp)"
  shows "status_of (TadDispatchDeviceControl env g Irp) =
           status_of (TadDispatchDeviceControl env (as_registered_agent env g) Irp)"
    and "state_of (TadDispatchDeviceControl env g Irp) =
           map_option unregistered
             (state_of (TadDispatchDeviceControl env (as_registered_agent env g) Irp))"
  using assms
  by (cases "Request Irp";
      auto simp: checked_once_registered_def dispatch_defs TadIsCallerProtectedAgent_def
          as_registered_agent_def unregistered_def Let_def split: option.splits)+

lemma caller_is_agent_as_registered:
  "TadIsCallerProtectedAgent env (as_registered_agent env g)"
  by (simp add: TadIsCallerProtectedAgent_def as_registered_agent_def)

lemma bootstrap_outcomes:
  assumes "AgentProcess g = None"
    "\<not> InputBufferLength Irp < required_input_size (Request Irp)"
  shows "Request Irp = IOCTL_TAD_SET_USER_ROLE (Some role) \<Longrightarrow>
           TadDispatchDeviceControl env g Irp =
             complete STATUS_SUCCESS (g\<lparr> CurrentUserRole := Role role \<rparr>)"
    and "Request Irp = IOCTL_TAD_SET_POLICY (Some pol) \<Longrightarrow>
           TadDispatchDeviceControl env g Irp =
             (if Version pol \<noteq> 1 then complete STATUS_INVALID_PARAMETER g
              else complete STATUS_SUCCESS (g\<lparr> CurrentPolicy := pol, PolicyValid := 1 \<rparr>))"
    and "Request Irp = IOCTL_TAD_UNLOCK (Some key) \<Longrightarrow>
           status_of (TadDispatchDeviceControl env g Irp) =
             Some (if locked_out env g \<or> \<not> TadVerifyAuthKey (AuthKey key)
                   then STATUS_ACCESS_DENIED else STATUS_SUCCESS)"
  using assms
  by (auto simp: dispatch_defs locked_out_def required_input_size_def Let_def)

text \<open>
  Claim C1, as stated, fails: it lists HardLock among the opcodes whose identity check
  is skipped while no agent is registered, but the handler of HardLock asks
  \<open>TadIsCallerProtectedAgent\<close> outright, which is false while \<open>AgentProcess\<close> is \<open>NULL\<close>.
  In the state \<open>DriverEntry\<close> leaves, a well-formed HardLock request is denied.
\<close>

theorem hard_lock_denied_before_registration:
  "AgentProcess sample_loaded = None \<and>
   TadDispatchDeviceControl sample_env sample_loaded
     (input_irp 8 (IOCTL_TAD_HARD_LOCK (Some \<lparr> hl_Enable = 1, hl_Flags = 0 \<rparr>)))
   = complete STATUS_ACCESS_DENIED sample_loaded"
  by (simp add: AgentProcess_sample_loaded dispatch_defs sizeof_defs input_irp_def
        TadIsCallerProtectedAgent_def)

text \<open>
  Claim C1, amended. While no agent process is registered, the caller-identity check
  is skipped for Unlock, SetUserRole and SetPolicy: a request from any process is served
  exactly as the same request from the registered agent would be (same status, same
  effect on the state), whatever the requesting process. In particular, with a large
  enough input length and a buffer, SetUserRole succeeds and stores the role, SetPolicy
  succeeds and stores the policy when its version is 1 (invalid-parameter otherwise),
  and Unlock is denied exactly when the lockout is in force or the secret is wrong.
  A HardLock, ProtectUi, Stealth or SetBannedApps request that passes its size check is
  rejected with access-denied while no agent process is registered. Once an agent
  process is registered, a request of any of the seven opcodes completes with success
  only when the requesting process is that agent process.
\<close>

theorem caller_identity_check:
  "(AgentProcess g = None \<and> checked_once_registered (Request Irp) \<longrightarrow>
      TadIsCallerProtectedAgent env (as_registered_agent env g) \<and>
      status_of (TadDispatchDeviceControl env g Irp) =
        status_of (TadDispatchDeviceControl env (as_registered_agent env g) Irp) \<and>
      state_of (TadDispatchDeviceControl env g Irp) =
        map_option unregistered
          (state_of (TadDispatchDeviceControl env (as_registered_agent env g) Irp)) \<and>
      TadDispatchDeviceControl (env\<lparr> CurrentProcess := c \<rparr>) g Irp =
        TadDispatchDeviceControl env g Irp) \<and>
   (AgentProcess g = None \<and>
      \<not> InputBufferLength Irp < required_input_size (Request Irp) \<longrightarrow>
      (Request Irp = IOCTL_TAD_SET_USER_ROLE (Some role) \<longrightarrow>
         TadDispatchDeviceControl env g Irp =
           complete STATUS_SUCCESS (g\<lparr> CurrentUserRole := Role role \<rparr>)) \<and>
      (Request Irp = IOCTL_TAD_SET_POLICY (Some pol) \<longrightarrow>
         TadDispatchDeviceControl env g Irp =
           (if Version pol \<noteq> 1 then complete STATUS_INVALID_PARAMETER g
            else complete STATUS_SUCCESS (g\<lparr> CurrentPolicy := pol, PolicyValid := 1 \<rparr>))) \<and>
      (Request Irp = IOCTL_TAD_UNLOCK (Some key) \<longrightarrow>
         status_of (TadDispatchDeviceControl env g Irp) =
           Some (if locked_out env g \<or> \<not> TadVerifyAuthKey (AuthKey key)
                 then STATUS_ACCESS_DENIED else STATUS_SUCCESS))) \<and>
   (AgentProcess g = None \<and> agent_only (Request Irp) \<and>
      \<not> InputBufferLength Irp < required_input_size (Request Irp) \<longrightarrow>
      TadDispatchDeviceControl env g Irp = complete STATUS_ACCESS_DENIED g) \<and>
   (AgentProcess g = Some a \<and>
      (checked_once_registered (Request Irp) \<or> agent_only (Request Irp)) \<and>
      status_of (TadDispatchDeviceControl env g Irp) = Some STATUS_SUCCESS \<longrightarrow>
      CurrentProcess env = a)"
proof (intro conjI impI; (elim conjE)?)
  show "TadIsCallerProtectedAgent env (as_registered_agent env g)"
    by (rule caller_is_agent_as_registered)
qed (erule (1) bootstrap_served_as_agent bootstrap_skips_check
       bootstrap_outcomes agent_only_denied_unregistered registered_needs_agent; assumption?)+

text \<open>
  The parts at concrete requests. Before registration, from process 7: SetUserRole and
  SetPolicy succeed and store their payload; Unlock with the right secret succeeds, as
  it does when process 7 is the registered agent; Stealth is denied. After registration
  Stealth from the agent succeeds.
\<close>

theorem caller_identity_check_witness:
  "TadDispatchDeviceControl (sample_env\<lparr> CurrentProcess := 7 \<rparr>) sample_loaded
     (input_irp 144 (IOCTL_TAD_SET_USER_ROLE
        (Some \<lparr> Role = 1, SessionId = 1, UserSid = replicate 68 0 \<rparr>))) =
     complete STATUS_SUCCESS (sample_loaded\<lparr> CurrentUserRole := 1 \<rparr>) \<and>
   TadDispatchDeviceControl (sample_env\<lparr> CurrentProcess := 7 \<rparr>) sample_loaded
     (input_irp 564 (IOCTL_TAD_SET_POLICY (Some sample_policy))) =
     complete STATUS_SUCCESS (sample_loaded\<lparr> CurrentPolicy := sample_policy, PolicyValid := 1 \<rparr>) \<and>
   status_of (TadDispatchDeviceControl (sample_env\<lparr> CurrentProcess := 7 \<rparr>) sample_loaded
     (unlock_irp deobfuscated_key)) = Some STATUS_SUCCESS \<and>
   status_of (TadDispatchDeviceControl (sample_env\<lparr> CurrentProcess := 7 \<rparr>)
     (sample_loaded\<lparr> AgentProcess := Some 7 \<rparr>) (unlock_irp deobfuscated_key)) =
     Some STATUS_SUCCESS \<and>
   TadDispatchDeviceControl sample_env sample_loaded
     (input_irp 8 (IOCTL_TAD_STEALTH (Some \<lparr> stl_Enable = 1, stl_Flags = 1 \<rparr>))) =
     complete STATUS_ACCESS_DENIED sample_loaded \<and>
   status_of (TadDispatchDeviceControl sample_env sample_registered
     (input_irp 8 (IOCTL_TAD_STEALTH (Some \<lparr> stl_Enable = 1, stl_Flags = 1 \<rparr>)))) =
     Some STATUS_SUCCESS \<and>
   CurrentProcess sample_env = 0x1000"
proof -
  let ?env = "sample_env\<lparr> CurrentProcess := 7 \<rparr>"
  let ?r = "\<lparr> Role = 1, SessionId = 1, UserSid = replicate 68 0 \<rparr>"
  let ?role = "input_irp 144 (IOCTL_TAD_SET_USER_ROLE (Some ?r))"
  let ?policy = "input_irp 564 (IOCTL_TAD_SET_POLICY (Some sample_policy))"
  let ?k = "\<lparr> AuthKey = deobfuscated_key \<rparr>"
  let ?unlock = "unlock_irp deobfuscated_key"
  let ?stealth = "input_irp 8 (IOCTL_TAD_STEALTH (Some \<lparr> stl_Enable = 1, stl_Flags = 1 \<rparr>))"
  have key: "TadVerifyAuthKey deobfuscated_key"
    by (simp add: TadVerifyAuthKey_def TadVerifyAuthKey_counted_eq)
  have free: "\<not> locked_out ?env sample_loaded"
    by (simp add: locked_out_def sample_loaded_def DriverEntry_def TAD_MAX_UNLOCK_ATTEMPTS_def
          word_sle_eq)
  have version: "Version sample_policy = 1"
    by (simp add: sample_policy_def)
  have sizes: "\<not> InputBufferLength ?role < required_input_size (Request ?role)"
    "\<not> InputBufferLength ?policy < required_input_size (Request ?policy)"
    "\<not> InputBufferLength ?unlock < required_input_size (Request ?unlock)"
    "\<not> InputBufferLength ?stealth < required_input_size (Request ?stealth)"
    by (simp_all add: input_irp_def unlock_irp_def required_input_size_def sizeof_defs)
  have kinds: "checked_once_registered (Request ?unlock)" "agent_only (Request ?stealth)"
    "checked_once_registered (Request ?stealth) \<or> agent_only (Request ?stealth)"
    by (simp_all add: checked_once_registered_def agent_only_def input_irp_def unlock_irp_def)
  have requests: "Request ?role = IOCTL_TAD_SET_USER_ROLE (Some ?r)"
    "Request ?policy = IOCTL_TAD_SET_POLICY (Some sample_policy)"
    "Request ?unlock = IOCTL_TAD_UNLOCK (Some ?k)"
    by (simp_all add: input_irp_def unlock_irp_def)
  have agent: "as_registered_agent ?env sample_loaded = sample_loaded\<lparr> AgentProcess := Some 7 \<rparr>"
    by (simp add: as_registered_agent_def)
  have c1: "TadDispatchDeviceControl ?env sample_loaded ?role =
              complete STATUS_SUCCESS (sample_loaded\<lparr> CurrentUserRole := 1 \<rparr>)"
    using caller_identity_check [where g = sample_loaded and Irp = ?role and env = ?env
          and role = ?r]
      AgentProcess_sample_loaded sizes requests
    by simp
  have c2: "TadDispatchDeviceControl ?env sample_loaded ?policy =
              complete STATUS_SUCCESS
                (sample_loaded\<lparr> CurrentPolicy := sample_policy, PolicyValid := 1 \<rparr>)"
    using caller_identity_check [where g = sample_loaded and Irp = ?policy and env = ?env
          and pol = sample_policy]
      AgentProcess_sample_loaded sizes requests version
    by simp
  note unlock = caller_identity_check [where g = sample_loaded and Irp = ?unlock and env = ?env
          and key = ?k]
  have "status_of (TadDispatchDeviceControl ?env sample_loaded ?unlock) =
          Some (if locked_out ?env sample_loaded \<or> \<not> TadVerifyAuthKey (AuthKey ?k)
                then STATUS_ACCESS_DENIED else STATUS_SUCCESS)"
    using unlock AgentProcess_sample_loaded sizes(3) requests(3) by blast
  then have c3: "status_of (TadDispatchDeviceControl ?env sample_loaded ?unlock) =
              Some STATUS_SUCCESS"
    using key free by simp
  have "status_of (TadDispatchDeviceControl ?env sample_loaded ?unlock) =
          status_of (TadDispatchDeviceControl ?env (as_registered_agent ?env sample_loaded) ?unlock)"
    using unlock AgentProcess_sample_loaded kinds(1) by blast
  then have c4: "status_of (TadDispatchDeviceControl ?env
               (sample_loaded\<lparr> AgentProcess := Some 7 \<rparr>) ?unlock) = Some STATUS_SUCCESS"
    using c3 agent by simp
  have c5: "TadDispatchDeviceControl sample_env sample_loaded ?stealth =
              complete STATUS_ACCESS_DENIED sample_loaded"
    using caller_identity_check [where g = sample_loaded and Irp = ?stealth and env = sample_env]
      AgentProcess_sample_loaded sizes kinds
    by simp
  have s: "status_of (TadDispatchDeviceControl sample_env sample_registered ?stealth) =
              Some STATUS_SUCCESS"
    by (simp add: dispatch_defs sizeof_defs input_irp_def AgentProcess_sample_registered
          TadIsCallerProtectedAgent_def CurrentProcess_sample_env)
  have c6: "CurrentProcess sample_env = 0x1000"
    using caller_identity_check [where g = sample_registered and Irp = ?stealth
          and env = sample_env and a = "0x1000"]
      AgentProcess_sample_registered kinds s
    by simp
  show ?thesis
    using c1 c2 c3 c4 c5 s c6 by simp
qed

text \<open>
  Claim C3 at its failing input: the registered agent sends HardLock, ProtectUi,
  Stealth or SetBannedApps with a large enough length and a \<open>NULL\<close> system buffer. The
  handlers have no \<open>NULL\<close> test and read through the pointer; ProtectPid, with the test
  its sibling handlers lack, rejects the same buffer with invalid-parameter.
\<close>

theorem null_buffer_is_dereferenced:
  "TadDispatchDeviceControl sample_env sample_registered
     (input_irp 8 (IOCTL_TAD_HARD_LOCK None)) = Inl NULL_POINTER_DEREFERENCE \<and>
   TadDispatchDeviceControl sample_env sample_registered
     (input_irp 8 (IOCTL_TAD_PROTECT_UI None)) = Inl NULL_POINTER_DEREFERENCE \<and>
   TadDispatchDeviceControl sample_env sample_registered
     (input_irp 8 (IOCTL_TAD_STEALTH None)) = Inl NULL_POINTER_DEREFERENCE \<and>
   TadDispatchDeviceControl sample_env sample_registered
     (input_irp 4100 (IOCTL_TAD_SET_BANNED_APPS None)) = Inl NULL_POINTER_DEREFERENCE \<and>
   TadDispatchDeviceControl sample_env sample_registered
     (input_irp 8 (IOCTL_TAD_PROTECT_PID None)) =
     complete STATUS_INVALID_PARAMETER sample_registered"
  by (simp add: dispatch_defs sizeof_defs input_irp_def AgentProcess_sample_registered
        TadIsCallerProtectedAgent_def CurrentProcess_sample_env)

text \<open>
  Claim C9. ProtectPid with \<open>TargetPid = 0\<close> or with non-zero \<open>Flags\<close>, SetPolicy with
  \<open>Version = 2\<close> and SetBannedApps with \<open>Count = 33\<close> complete with invalid-parameter and
  leave the whole global state as it was. Each request is one that reaches its
  validation: its length passes the size check, its buffer is not \<open>NULL\<close>, and it passes
  the caller check of its opcode (none for ProtectPid).
\<close>

theorem validation_rejections_leave_state:
  "(Request Irp = IOCTL_TAD_PROTECT_PID (Some pp) \<and>
      \<not> InputBufferLength Irp < sizeof_TAD_PROTECT_PID_INPUT \<and>
      (pid_TargetPid pp = 0 \<or> pid_Flags pp \<noteq> 0) \<longrightarrow>
      status_of (TadDispatchDeviceControl env g Irp) = Some STATUS_INVALID_PARAMETER \<and>
      state_of (TadDispatchDeviceControl env g Irp) = Some g) \<and>
   (Request Irp = IOCTL_TAD_SET_POLICY (Some pol) \<and>
      \<not> InputBufferLength Irp < sizeof_TAD_POLICY_BUFFER \<and> caller_passes env g \<and>
      Version pol = 2 \<longrightarrow>
      status_of (TadDispatchDeviceControl env g Irp) = Some STATUS_INVALID_PARAMETER \<and>
      state_of (TadDispatchDeviceControl env g Irp) = Some g) \<and>
   (Request Irp = IOCTL_TAD_SET_BANNED_APPS (Some apps) \<and>
      \<not> InputBufferLength Irp < sizeof_TAD_BANNED_APPS_INPUT \<and>
      TadIsCallerProtectedAgent env g \<and> Count apps = 33 \<longrightarrow>
      status_of (TadDispatchDeviceControl env g Irp) = Some STATUS_INVALID_PARAMETER \<and>
      state_of (TadDispatchDeviceControl env g Irp) = Some g)"
  by (auto simp: dispatch_defs caller_passes_def TadIsCallerProtectedAgent_def
        TAD_MAX_BANNED_APPS_def)

theorem validation_rejections_leave_state_witness:
  "status_of (TadDispatchDeviceControl sample_env sample_registered
     (input_irp 8 (IOCTL_TAD_PROTECT_PID (Some \<lparr> pid_TargetPid = 0, pid_Flags = 0 \<rparr>)))) =
     Some STATUS_INVALID_PARAMETER \<and>
   state_of (TadDispatchDeviceControl sample_env sample_registered
     (input_irp 8 (IOCTL_TAD_PROTECT_PID (Some \<lparr> pid_TargetPid = 0, pid_Flags = 0 \<rparr>)))) =
     Some sample_registered \<and>
   status_of (TadDispatchDeviceControl sample_env sample_registered
     (input_irp 8 (IOCTL_TAD_PROTECT_PID (Some \<lparr> pid_TargetPid = 4242, pid_Flags = 1 \<rparr>)))) =
     Some STATUS_INVALID_PARAMETER \<and>
   state_of (TadDispatchDeviceControl sample_env sample_registered
     (input_irp 8 (IOCTL_TAD_PROTECT_PID (Some \<lparr> pid_TargetPid = 4242, pid_Flags = 1 \<rparr>)))) =
     Some sample_registered \<and>
   status_of (TadDispatchDeviceControl sample_env sample_registered
     (input_irp 564 (IOCTL_TAD_SET_POLICY (Some (zero_TAD_POLICY_BUFFER\<lparr> Version := 2 \<rparr>))))) =
     Some STATUS_INVALID_PARAMETER \<and>
   state_of (TadDispatchDeviceControl sample_env sample_registered
     (input_irp 564 (IOCTL_TAD_SET_POLICY (Some (zero_TAD_POLICY_BUFFER\<lparr> Version := 2 \<rparr>))))) =
     Some sample_registered \<and>
   status_of (TadDispatchDeviceControl sample_env sample_registered
     (input_irp 4100 (IOCTL_TAD_SET_BANNED_APPS
        (Some \<lparr> Count = 33, ImageNames = replicate 32 (replicate 64 0) \<rparr>)))) =
     Some STATUS_INVALID_PARAMETER \<and>
   state_of (TadDispatchDeviceControl sample_env sample_registered
     (input_irp 4100 (IOCTL_TAD_SET_BANNED_APPS
        (Some \<lparr> Count = 33, ImageNames = replicate 32 (replicate 64 0) \<rparr>)))) =
     Some sample_registered"
proof -
  have pass: "caller_passes sample_env sample_registered"
    and agent: "TadIsCallerProtectedAgent sample_env sample_registered"
    by (simp_all add: caller_passes_def TadIsCallerProtectedAgent_def
          AgentProcess_sample_registered CurrentProcess_sample_env)
  show ?thesis
    using pass agent
      validation_rejections_leave_state [where env = sample_env and g = sample_registered
        and Irp = "input_irp 8 (IOCTL_TAD_PROTECT_PID (Some \<lparr> pid_TargetPid = 0, pid_Flags = 0 \<rparr>))"
        and pp = "\<lparr> pid_TargetPid = 0, pid_Flags = 0 \<rparr>"]
      validation_rejections_leave_state [where env = sample_env and g = sample_registered
        and Irp = "input_irp 8 (IOCTL_TAD_PROTECT_PID (Some \<lparr> pid_TargetPid = 4242, pid_Flags = 1 \<rparr>))"
        and pp = "\<lparr> pid_TargetPid = 4242, pid_Flags = 1 \<rparr>"]
      validation_rejections_leave_state [where env = sample_env and g = sample_registered
        and Irp = "input_irp 564 (IOCTL_TAD_SET_POLICY (Some (zero_TAD_POLICY_BUFFER\<lparr> Version := 2 \<rparr>)))"
        and pol = "zero_TAD_POLICY_BUFFER\<lparr> Version := 2 \<rparr>"]
      validation_rejections_leave_state [where env = sample_env and g = sample_registered
        and Irp = "input_irp 4100 (IOCTL_TAD_SET_BANNED_APPS
                     (Some \<lparr> Count = 33, ImageNames = replicate 32 (replicate 64 0) \<rparr>))"
        and apps = "\<lparr> Count = 33, ImageNames = replicate 32 (replicate 64 0) \<rparr>"]
    by (simp add: input_irp_def sizeof_defs)
qed

section \<open>Proofs: the unlock state machine\<close>

lemma not_max_attempts: "c < 5 \<Longrightarrow> \<not> TAD_MAX_UNLOCK_ATTEMPTS \<le>s (of_nat c :: LONG)"
proof -
  assume "c < 5"
  then consider "c = 0" | "c = 1" | "c = 2" | "c = 3" | "c = 4" by linarith
  then show ?thesis
    by cases (simp_all add: TAD_MAX_UNLOCK_ATTEMPTS_def word_sle_eq)
qed










section \<open>Proofs: handle interception\<close>

lemma in_slot_nonzero: "pid \<noteq> 0 \<Longrightarrow> in_slot pid slot \<longleftrightarrow> pid = slot"
  by (auto simp: in_slot_def slot_set_def)

lemma and_not_and_self: "(m AND NOT x) AND x = (0 :: 'a::len word)"
  by (simp add: bit_eq_iff bit_and_iff bit_not_iff)

text \<open>
  Claim C6. For a handle creation or duplication whose target and requester have
  non-null process identifiers (every process but the idle pseudo-process, whose
  identifier 0 coincides with an unset slot): when the target is in a protected slot
  and the requester is in neither, the callback returns success and the requested
  mask with the stripped rights cleared (terminate, suspend/resume, memory write,
  memory operation and create-thread for a process; terminate, suspend/resume and
  set-context for a thread); when the requester is in a slot, or the target is in
  none, or no slot is set, the operation is returned as it came.
\<close>

theorem handle_interception_strips_rights:
  assumes "ObjectProcessId OpInfo \<noteq> 0" and "cPid \<noteq> 0"
    and "Operation OpInfo = OB_OPERATION_HANDLE_CREATE \<or>
         Operation OpInfo = OB_OPERATION_HANDLE_DUPLICATE"
  shows "(ObjectType OpInfo = PsProcessType \<longrightarrow>
            TadObProcessPreCallback g cPid OpInfo =
              (OB_PREOP_SUCCESS,
               if is_protected_pid g (ObjectProcessId OpInfo) \<and> \<not> is_protected_pid g cPid
               then OpInfo\<lparr> DesiredAccess :=
                              DesiredAccess OpInfo AND NOT TAD_STRIPPED_PROCESS_RIGHTS \<rparr>
               else OpInfo)) \<and>
         (ObjectType OpInfo = PsThreadType \<longrightarrow>
            TadObThreadPreCallback g cPid OpInfo =
              (OB_PREOP_SUCCESS,
               if is_protected_pid g (ObjectProcessId OpInfo) \<and> \<not> is_protected_pid g cPid
               then OpInfo\<lparr> DesiredAccess :=
                              DesiredAccess OpInfo AND NOT TAD_STRIPPED_THREAD_RIGHTS \<rparr>
               else OpInfo)) \<and>
         (DesiredAccess OpInfo AND NOT TAD_STRIPPED_PROCESS_RIGHTS) AND
            (PROCESS_TERMINATE OR PROCESS_SUSPEND_RESUME OR PROCESS_VM_WRITE OR
             PROCESS_VM_OPERATION OR PROCESS_CREATE_THREAD) = 0 \<and>
         (DesiredAccess OpInfo AND NOT TAD_STRIPPED_THREAD_RIGHTS) AND
            (THREAD_TERMINATE OR THREAD_SUSPEND_RESUME OR THREAD_SET_CONTEXT) = 0"
proof -
  have p: "PROCESS_TERMINATE OR PROCESS_SUSPEND_RESUME OR PROCESS_VM_WRITE OR
             PROCESS_VM_OPERATION OR PROCESS_CREATE_THREAD = TAD_STRIPPED_PROCESS_RIGHTS"
    by (simp add: TAD_STRIPPED_PROCESS_RIGHTS_def ac_simps)
  have t: "THREAD_TERMINATE OR THREAD_SUSPEND_RESUME OR THREAD_SET_CONTEXT =
             TAD_STRIPPED_THREAD_RIGHTS"
    by (simp add: TAD_STRIPPED_THREAD_RIGHTS_def)
  show ?thesis
    unfolding p t and_not_and_self
    using assms
    by (auto simp: TadObProcessPreCallback_def TadObThreadPreCallback_def Let_def
          is_protected_pid_def in_slot_nonzero)
qed

theorem handle_interception_strips_rights_witness:
  "TadObProcessPreCallback sample_registered 7 (sample_open 4242 PsProcessType 0x1FFFFF) =
     (OB_PREOP_SUCCESS, sample_open 4242 PsProcessType 0x1FF7D4) \<and>
   TadObProcessPreCallback sample_registered 4242 (sample_open 4242 PsProcessType 0x1FFFFF) =
     (OB_PREOP_SUCCESS, sample_open 4242 PsProcessType 0x1FFFFF) \<and>
   TadObProcessPreCallback sample_registered 7 (sample_open 8 PsProcessType 0x1FFFFF) =
     (OB_PREOP_SUCCESS, sample_open 8 PsProcessType 0x1FFFFF) \<and>
   TadObProcessPreCallback sample_loaded 7 (sample_open 4242 PsProcessType 0x1FFFFF) =
     (OB_PREOP_SUCCESS, sample_open 4242 PsProcessType 0x1FFFFF) \<and>
   TadObThreadPreCallback sample_registered 7 (sample_open 4242 PsThreadType 0x1FFFFF) =
     (OB_PREOP_SUCCESS, sample_open 4242 PsThreadType 0x1FFFEC)"
proof -
  have pids: "ProtectedPid sample_registered = 4242" "ProtectedUiPid sample_registered = 0"
    "ProtectedPid sample_loaded = 0" "ProtectedUiPid sample_loaded = 0"
    by (simp_all add: sample_registered_def sample_loaded_def DriverEntry_def g_Tad_zero_def)
  have masks: "(0x1FFFFF :: ACCESS_MASK) AND NOT TAD_STRIPPED_PROCESS_RIGHTS = 0x1FF7D4"
    "(0x1FFFFF :: ACCESS_MASK) AND NOT TAD_STRIPPED_THREAD_RIGHTS = 0x1FFFEC"
    by (simp_all add: TAD_STRIPPED_PROCESS_RIGHTS_def TAD_STRIPPED_THREAD_RIGHTS_def
          PROCESS_TERMINATE_def PROCESS_VM_WRITE_def PROCESS_VM_OPERATION_def
          PROCESS_CREATE_THREAD_def PROCESS_SUSPEND_RESUME_def THREAD_TERMINATE_def
          THREAD_SUSPEND_RESUME_def THREAD_SET_CONTEXT_def)
  show ?thesis
    using handle_interception_strips_rights
        [where OpInfo = "sample_open 4242 PsProcessType 0x1FFFFF" and cPid = 7
           and g = sample_registered]
      handle_interception_strips_rights
        [where OpInfo = "sample_open 4242 PsProcessType 0x1FFFFF" and cPid = 4242
           and g = sample_registered]
      handle_interception_strips_rights
        [where OpInfo = "sample_open 8 PsProcessType 0x1FFFFF" and cPid = 7
           and g = sample_registered]
      handle_interception_strips_rights
        [where OpInfo = "sample_open 4242 PsProcessType 0x1FFFFF" and cPid = 7
           and g = sample_loaded]
      handle_interception_strips_rights
        [where OpInfo = "sample_open 4242 PsThreadType 0x1FFFFF" and cPid = 7
           and g = sample_registered]
    by (simp add: sample_open_def is_protected_pid_def in_slot_def slot_set_def pids masks)
qed

section \<open>Proofs: the filesystem intercept\<close>

lemma length_us_chars: "wf_unicode_string u \<Longrightarrow> length (us_chars u) = unat (Length u) div 2"
  by (auto simp: wf_unicode_string_def us_chars_def split: option.splits)

lemma Length_eq_iff:
  assumes "wf_unicode_string s1" "wf_unicode_string s2"
  shows "Length s1 = Length s2 \<longleftrightarrow> length (us_chars s1) = length (us_chars s2)"
proof -
  have "even (unat (Length s1))" "even (unat (Length s2))"
    using assms by (simp_all add: wf_unicode_string_def)
  then have "unat (Length s1) = unat (Length s2) \<longleftrightarrow>
               unat (Length s1) div 2 = unat (Length s2) div 2"
    by (metis dvd_div_eq_iff)
  then show ?thesis
    using assms by (simp add: length_us_chars word_unat_eq_iff)
qed

lemma length_fold_case [simp]: "length (fold_case upc ci cs) = length cs"
  by (simp add: fold_case_def)

lemma RtlEqualUnicodeString_iff:
  assumes "wf_unicode_string s1" "wf_unicode_string s2"
  shows "RtlEqualUnicodeString upc s1 s2 ci \<longleftrightarrow>
           fold_case upc ci (us_chars s1) = fold_case upc ci (us_chars s2)"
  using Length_eq_iff [OF assms]
  by (auto simp: RtlEqualUnicodeString_def dest: arg_cong [where f = length])

lemma int_unat_diff_zero_iff: "int (unat a) - int (unat b) = 0 \<longleftrightarrow> a = (b :: 'a::len word)"
  by (simp add: word_uint_eq_iff)

lemma find_Some_holds: "find P xs = Some x \<Longrightarrow> x \<in> set xs \<and> P x"
  by (induction xs) (auto split: if_splits)

lemma RtlCompareUnicodeString_zero_iff:
  assumes "wf_unicode_string s1" "wf_unicode_string s2"
  shows "RtlCompareUnicodeString upc s1 s2 ci = 0 \<longleftrightarrow>
           fold_case upc ci (us_chars s1) = fold_case upc ci (us_chars s2)"
proof -
  let ?xs = "fold_case upc ci (us_chars s1)" and ?ys = "fold_case upc ci (us_chars s2)"
  show ?thesis
  proof (cases "find (\<lambda>(c1, c2). c1 \<noteq> c2) (zip ?xs ?ys)")
    case None
    then have same: "\<forall>(x, y) \<in> set (zip ?xs ?ys). x = y"
      by (auto simp: find_None_iff)
    have "RtlCompareUnicodeString upc s1 s2 ci = 0 \<longleftrightarrow> Length s1 = Length s2"
      by (simp add: RtlCompareUnicodeString_def None word_uint_eq_iff [symmetric])
    also have "\<dots> \<longleftrightarrow> length ?xs = length ?ys"
      using Length_eq_iff [OF assms] by simp
    also have "\<dots> \<longleftrightarrow> ?xs = ?ys"
      using same by (auto simp: list_eq_iff_zip_eq)
    finally show ?thesis .
  next
    case (Some a)
    obtain c1 c2 where a: "a = (c1, c2)" by (cases a)
    from Some a have mem: "(c1, c2) \<in> set (zip ?xs ?ys)" and ne: "c1 \<noteq> c2"
      by (auto dest: find_Some_holds)
    have "?xs \<noteq> ?ys"
    proof
      assume "?xs = ?ys"
      with mem have "(c1, c2) \<in> set (zip ?ys ?ys)" by simp
      with ne show False by (auto simp: zip_same_conv_map)
    qed
    moreover have "RtlCompareUnicodeString upc s1 s2 ci \<noteq> 0"
      using ne by (simp add: RtlCompareUnicodeString_def Some a word_uint_eq_iff [symmetric])
    ultimately show ?thesis by simp
  qed
qed

lemma unat_byte_count: "n < 32768 \<Longrightarrow> unat (of_nat (2 * n) :: USHORT) = 2 * n"
  by (simp add: unat_of_nat del: of_nat_mult)

lemma wf_RtlInitUnicodeString:
  "length src < 32767 \<Longrightarrow> wf_unicode_string (RtlInitUnicodeString src)"
  by (simp add: wf_unicode_string_def RtlInitUnicodeString_def unat_byte_count del: of_nat_mult)

lemma us_chars_RtlInitUnicodeString:
  "length src < 32767 \<Longrightarrow> us_chars (RtlInitUnicodeString src) = src"
  by (simp add: us_chars_def RtlInitUnicodeString_def unat_byte_count del: of_nat_mult)

lemma TadIsProtectedFilename_iff:
  assumes "wf_unicode_string FileName"
  shows "TadIsProtectedFilename upc FileName \<longleftrightarrow> protected_filename upc (us_chars FileName)"
proof -
  have l: "length TAD_DRIVER_FILENAME < 32767" "length TAD_UI_FILENAME < 32767"
    "length TAD_SERVICE_FILENAME < 32767"
    by (simp_all add: TAD_DRIVER_FILENAME_def TAD_UI_FILENAME_def TAD_SERVICE_FILENAME_def
          wstr_def)
  show ?thesis
    using assms l
    by (simp add: TadIsProtectedFilename_def Let_def RtlCompareUnicodeString_zero_iff
          wf_RtlInitUnicodeString us_chars_RtlInitUnicodeString protected_filename_def
          equal_ignoring_case_def fold_case_def)
       (simp add: TAD_DRIVER_FILENAME_def TAD_UI_FILENAME_def TAD_SERVICE_FILENAME_def)
qed


text \<open>
  Claim C10. A request of class \<open>FileDispositionInformationEx\<close> on a protected name is
  denied whatever its information buffer holds, so also when its flags clear the
  delete disposition; a request of class \<open>FileDispositionInformation\<close> passes through
  when its \<open>DeleteFile\<close> byte is 0, and is denied on a protected name when it is not.
\<close>

theorem extended_disposition_always_treated_as_delete:
  "(FileInformationClass Data = FileDispositionInformationEx \<and>
      resolved_final_component q = Some fc \<and> wf_unicode_string fc \<and>
      protected_filename upc (us_chars fc) \<longrightarrow>
      TadPreSetInformationCallback upc q Data = deny_set_information Data) \<and>
   (FileInformationClass Data = FileDispositionInformation \<and>
      InfoBuffer Data = Some (0 # rest) \<longrightarrow>
      TadPreSetInformationCallback upc q Data = (FLT_PREOP_SUCCESS_NO_CALLBACK, Data)) \<and>
   (FileInformationClass Data = FileDispositionInformation \<and>
      InfoBuffer Data = Some (DeleteFile # rest) \<and> DeleteFile \<noteq> 0 \<and>
      resolved_final_component q = Some fc \<and> wf_unicode_string fc \<and>
      protected_filename upc (us_chars fc) \<longrightarrow>
      TadPreSetInformationCallback upc q Data = deny_set_information Data)"
  by (auto simp: TadPreSetInformationCallback_def classify_set_information_def
        resolved_final_component_def deny_set_information_def TadIsProtectedFilename_iff
        split: option.splits if_splits)

lemma resolved_sample_name_query:
  "resolved_final_component (sample_name_query name) = Some (RtlInitUnicodeString name)"
  by (simp add: resolved_final_component_def sample_name_query_def NT_SUCCESS_def)




theorem extended_disposition_always_treated_as_delete_witness:
  "TadPreSetInformationCallback upcase_ascii (sample_name_query (wstr ''TAD.RV.exe''))
     (sample_set_information FileDispositionInformationEx [0, 0, 0, 0]) =
     deny_set_information (sample_set_information FileDispositionInformationEx [0, 0, 0, 0]) \<and>
   TadPreSetInformationCallback upcase_ascii (sample_name_query (wstr ''TAD.RV.exe''))
     (sample_set_information FileDispositionInformation [0]) =
     (FLT_PREOP_SUCCESS_NO_CALLBACK, sample_set_information FileDispositionInformation [0]) \<and>
   TadPreSetInformationCallback upcase_ascii (sample_name_query (wstr ''TAD.RV.exe''))
     (sample_set_information FileDispositionInformation [1]) =
     deny_set_information (sample_set_information FileDispositionInformation [1])"
proof -
  have l: "length (wstr ''TAD.RV.exe'') < 32767"
    by (simp add: wstr_def)
  have p: "protected_filename upcase_ascii (us_chars (RtlInitUnicodeString (wstr ''TAD.RV.exe'')))"
    by (simp add: us_chars_RtlInitUnicodeString [OF l] protected_filename_def
          equal_ignoring_case_def)
  show ?thesis
    using extended_disposition_always_treated_as_delete
        [where Data = "sample_set_information FileDispositionInformationEx [0, 0, 0, 0]"
           and q = "sample_name_query (wstr ''TAD.RV.exe'')"
           and fc = "RtlInitUnicodeString (wstr ''TAD.RV.exe'')" and upc = upcase_ascii]
      extended_disposition_always_treated_as_delete
        [where Data = "sample_set_information FileDispositionInformation [0]"
           and q = "sample_name_query (wstr ''TAD.RV.exe'')" and rest = "[]"
           and fc = "RtlInitUnicodeString (wstr ''TAD.RV.exe'')" and upc = upcase_ascii]
      extended_disposition_always_treated_as_delete
        [where Data = "sample_set_information FileDispositionInformation [1]"
           and q = "sample_name_query (wstr ''TAD.RV.exe'')" and rest = "[]" and DeleteFile = 1
           and fc = "RtlInitUnicodeString (wstr ''TAD.RV.exe'')" and upc = upcase_ascii]
      p wf_RtlInitUnicodeString [OF l]
    by (simp add: resolved_sample_name_query sample_set_information_def)
qed

section \<open>Proofs: the process-launch intercept\<close>

declare image_name_srcLen.simps [simp del] banned_apps_loop.simps [simp del]
  last_separator.simps [simp del] banned_apps_match.simps [simp del]

text \<open>
  The loop of the callback computes the start of the final path component: after it,
  what follows \<open>lastSep\<close> is what follows the last backslash.
\<close>

lemma final_path_component_snoc:
  "final_path_component (xs @ [c]) =
     (if c = 0x5C then [] else final_path_component xs @ [c])"
  by (simp add: final_path_component_def)

lemma last_separator_invariant:
  assumes "k \<le> n" "n \<le> length buf" "lastSep \<le> k"
    and "drop lastSep (take k buf) = final_path_component (take k buf)"
  shows "last_separator buf n k lastSep \<le> n \<and>
         drop (last_separator buf n k lastSep) (take n buf) = final_path_component (take n buf)"
  using assms
proof (induction buf n k lastSep rule: last_separator.induct)
  case (1 buf n k lastSep)
  show ?case
  proof (cases "k < n")
    case True
    let ?ls = "if buf ! k = 0x5C then k + 1 else lastSep"
    have tk: "take (Suc k) buf = take k buf @ [buf ! k]"
      using True "1.prems"(2) by (simp add: take_Suc_conv_app_nth)
    have "drop ?ls (take (k + 1) buf) = final_path_component (take (k + 1) buf)"
      using "1.prems"(3,4) True "1.prems"(2)
      by (simp add: tk final_path_component_snoc)
    moreover have "?ls \<le> k + 1" using "1.prems"(3) by simp
    moreover have "k + 1 \<le> n" using True by simp
    ultimately show ?thesis
      using "1.IH" [OF True _ "1.prems"(2)] True
      by (subst (1 2) last_separator.simps) simp
  next
    case False
    then have "k = n" using "1.prems"(1) by simp
    then show ?thesis
      using "1.prems" by (subst (1 2) last_separator.simps) simp
  qed
qed

lemma last_separator_correct:
  assumes "n \<le> length buf"
  shows "last_separator buf n 0 0 \<le> n"
    and "drop (last_separator buf n 0 0) (take n buf) = final_path_component (take n buf)"
  using last_separator_invariant [of 0 n buf 0] assms
  by (simp_all add: final_path_component_def)

lemma banned_apps_match_iff:
  "banned_apps_match upc g component i \<longleftrightarrow>
     (\<exists>j. i \<le> j \<and> j < unat (BannedAppCount g) \<and>
          RtlEqualUnicodeString upc component (BannedApps g ! j) True)"
proof (induction upc g component i rule: banned_apps_match.induct)
  case (1 upc g component i)
  show ?case
  proof (cases "i < unat (BannedAppCount g)")
    case True
    show ?thesis
    proof (cases "RtlEqualUnicodeString upc component (BannedApps g ! i) True")
      case eq: True
      then show ?thesis
        using True by (subst banned_apps_match.simps) auto
    next
      case ne: False
      have "(\<exists>j. i \<le> j \<and> j < unat (BannedAppCount g) \<and>
                RtlEqualUnicodeString upc component (BannedApps g ! j) True) \<longleftrightarrow>
            (\<exists>j. i + 1 \<le> j \<and> j < unat (BannedAppCount g) \<and>
                RtlEqualUnicodeString upc component (BannedApps g ! j) True)"
        using ne by (metis Suc_eq_plus1 Suc_leI le_neq_implies_less Suc_leD)
      then show ?thesis
        using "1.IH" [OF True ne] True ne
        by (subst banned_apps_match.simps) simp
    qed
  next
    case False
    then show ?thesis
      by (subst banned_apps_match.simps) auto
  qed
qed

subsection \<open>The invariant of the reachable states\<close>

lemma unat_char_count: "n < 32768 \<Longrightarrow> unat (of_nat (n * 2) :: USHORT) = n * 2"
  by (simp add: unat_of_nat del: of_nat_mult)

lemma unat_count_succ: "unat (c :: ULONG) < 32 \<Longrightarrow> unat (c + 1) = unat c + 1"
  by (simp add: unat_word_ariths)

lemma list_all_update:
  "list_all P xs \<Longrightarrow> P x \<Longrightarrow> list_all P (xs[i := x])"
  using set_update_subset_insert [of xs i x] by (auto simp: list_all_iff)

lemma wf_banned_entry:
  assumes "0 < srcLen" "srcLen < TAD_MAX_IMAGE_NAME_LEN" "length row = TAD_MAX_IMAGE_NAME_LEN"
  shows "wf_unicode_string
           \<lparr> Length = of_nat (srcLen * 2), MaximumLength = of_nat (TAD_MAX_IMAGE_NAME_LEN * 2),
             Buffer = Some (RtlCopyMemory_wchars dst row srcLen) \<rparr>"
  using assms
  by (simp add: wf_unicode_string_def RtlCopyMemory_wchars_def TAD_MAX_IMAGE_NAME_LEN_def
        unat_char_count del: of_nat_mult)

lemma banned_apps_loop_invariant:
  assumes "length (ImageNames p) = TAD_MAX_BANNED_APPS"
    and "list_all (\<lambda>row. length row = TAD_MAX_IMAGE_NAME_LEN) (ImageNames p)"
    and "unat (Count p) \<le> TAD_MAX_BANNED_APPS"
    and "length (BannedApps g) = TAD_MAX_BANNED_APPS"
    and "list_all wf_unicode_string (BannedApps g)"
    and "unat (BannedAppCount g) \<le> i"
  shows "CurrentPolicy (banned_apps_loop p i g) = CurrentPolicy g \<and>
         PolicyValid (banned_apps_loop p i g) = PolicyValid g \<and>
         length (BannedApps (banned_apps_loop p i g)) = TAD_MAX_BANNED_APPS \<and>
         list_all wf_unicode_string (BannedApps (banned_apps_loop p i g)) \<and>
         unat (BannedAppCount (banned_apps_loop p i g)) \<le> max i (unat (Count p))"
  using assms
proof (induction p i g rule: banned_apps_loop.induct)
  case (1 p i g)
  let ?n = "image_name_srcLen (ImageNames p ! i) 0 0"
  show ?case
  proof (cases "i < unat (Count p)")
    case False
    then show ?thesis
      using "1.prems" by (subst (1 2 3 4 5) banned_apps_loop.simps) simp
  next
    case True
    show ?thesis
    proof (cases "?n = 0 \<or> TAD_MAX_IMAGE_NAME_LEN \<le> ?n")
      case skip: True
      have "unat (BannedAppCount g) \<le> i + 1" using "1.prems"(6) by simp
      from "1.IH"(1) [OF True skip "1.prems"(1,2,3,4,5) this]
      show ?thesis
        using True skip by (subst (1 2 3 4 5) banned_apps_loop.simps) auto
    next
      case store: False
      let ?row = "ImageNames p ! i"
      let ?buf = "RtlCopyMemory_wchars (BannedAppStorage g ! i) ?row ?n"
      let ?entry = "\<lparr> Length = of_nat (?n * 2), MaximumLength = of_nat (TAD_MAX_IMAGE_NAME_LEN * 2),
                      Buffer = Some ?buf \<rparr>"
      let ?g = "g\<lparr> BannedAppStorage := (BannedAppStorage g)[i := ?buf],
                    BannedApps := (BannedApps g)[i := ?entry],
                    BannedAppCount := BannedAppCount g + 1 \<rparr>"
      have i32: "i < TAD_MAX_BANNED_APPS" using True "1.prems"(3) by simp
      have row: "length ?row = TAD_MAX_IMAGE_NAME_LEN"
        using "1.prems"(1,2) i32 by (simp add: list_all_length)
      have entry: "wf_unicode_string ?entry"
        using store row by (intro wf_banned_entry) auto
      have len: "length (BannedApps ?g) = TAD_MAX_BANNED_APPS"
        using "1.prems"(4) by simp
      have wf: "list_all wf_unicode_string (BannedApps ?g)"
        using "1.prems"(5) entry by (simp add: list_all_update)
      have "unat (BannedAppCount g) < 32"
        using "1.prems"(6) i32 by (simp add: TAD_MAX_BANNED_APPS_def)
      then have cnt: "unat (BannedAppCount ?g) \<le> i + 1"
        using "1.prems"(6) by (simp add: unat_count_succ)
      from "1.IH"(2) [OF True store "1.prems"(1,2,3) len wf cnt]
      show ?thesis
        using True store by (subst (1 2 3 4 5) banned_apps_loop.simps) auto
    qed
  qed
qed

lemma globals_invariant_DriverEntry:
  "DriverEntry STATUS_SUCCESS obHandle fltHandle = (STATUS_SUCCESS, g) \<Longrightarrow> globals_invariant g"
  by (auto simp: DriverEntry_def globals_invariant_def g_Tad_zero_def zero_TAD_POLICY_BUFFER_def
        zero_UNICODE_STRING_def wf_unicode_string_def list_all_length TAD_MAX_BANNED_APPS_def)

lemma globals_invariant_SET_BANNED_APPS:
  assumes "globals_invariant g" "wf_request (IOCTL_TAD_SET_BANNED_APPS buf)"
    and "dispatch_SET_BANNED_APPS env g inLen buf = Inr (c, g')"
  shows "globals_invariant g'"
proof (cases buf)
  case None
  then show ?thesis
    using assms by (auto simp: dispatch_SET_BANNED_APPS_def complete_def split: if_splits)
next
  case (Some p)
  show ?thesis
  proof (cases "inLen < sizeof_TAD_BANNED_APPS_INPUT \<or> \<not> TadIsCallerProtectedAgent env g \<or>
                  of_nat TAD_MAX_BANNED_APPS < Count p")
    case True
    then show ?thesis
      using assms Some by (auto simp: dispatch_SET_BANNED_APPS_def complete_def split: if_splits)
  next
    case False
    let ?g0 = "g\<lparr> BannedAppStorage :=
                       replicate TAD_MAX_BANNED_APPS (replicate TAD_MAX_IMAGE_NAME_LEN 0),
                   BannedApps := replicate TAD_MAX_BANNED_APPS zero_UNICODE_STRING,
                   BannedAppCount := 0 \<rparr>"
    have g': "g' = banned_apps_loop p 0 ?g0"
      using assms(3) Some False by (simp add: dispatch_SET_BANNED_APPS_def complete_def)
    have "\<not> (32 :: ULONG) < Count p" using False by (simp add: TAD_MAX_BANNED_APPS_def)
    then have cnt: "unat (Count p) \<le> TAD_MAX_BANNED_APPS"
      by (simp add: TAD_MAX_BANNED_APPS_def word_less_nat_alt)
    have names: "length (ImageNames p) = TAD_MAX_BANNED_APPS"
      "list_all (\<lambda>row. length row = TAD_MAX_IMAGE_NAME_LEN) (ImageNames p)"
      using assms(2) Some by (simp_all add: wf_request_def)
    have z: "length (BannedApps ?g0) = TAD_MAX_BANNED_APPS"
      "list_all wf_unicode_string (BannedApps ?g0)" "unat (BannedAppCount ?g0) \<le> 0"
      by (simp_all add: list_all_length zero_UNICODE_STRING_def wf_unicode_string_def)
    from banned_apps_loop_invariant [OF names cnt z]
    show ?thesis
      using assms(1) cnt unfolding g' globals_invariant_def by simp
  qed
qed

lemma globals_invariant_DeviceControl:
  assumes "globals_invariant g" "wf_request (Request Irp)"
    and "TadDispatchDeviceControl env g Irp = Inr (c, g')"
  shows "globals_invariant g'"
proof (cases "Request Irp")
  case (IOCTL_TAD_SET_BANNED_APPS buf)
  then show ?thesis
    using assms globals_invariant_SET_BANNED_APPS
    by (simp add: TadDispatchDeviceControl_def)
qed (use assms in \<open>auto simp: TadDispatchDeviceControl_def dispatch_PROTECT_PID_def
       dispatch_UNLOCK_def dispatch_HEARTBEAT_def dispatch_SET_USER_ROLE_def
       dispatch_SET_POLICY_def dispatch_READ_ALERT_def dispatch_HARD_LOCK_def
       dispatch_PROTECT_UI_def dispatch_STEALTH_def complete_def complete_with_def
       globals_invariant_def Let_def split: if_splits option.splits\<close>)

lemma reachable_invariant: "reachable g \<Longrightarrow> globals_invariant g"
proof (induction rule: reachable.induct)
  case (reachable_DriverEntry obHandle fltHandle g)
  then show ?case by (rule globals_invariant_DriverEntry)
next
  case (reachable_DeviceControl g Irp env c g')
  then show ?case using globals_invariant_DeviceControl by blast
next
  case (reachable_HeartbeatDpc g lost g')
  then show ?case
    by (auto simp: TadHeartbeatDpcRoutine_def globals_invariant_def)
qed

lemma matches_banned_app_iff:
  assumes "unat (BannedAppCount g) \<le> length (BannedApps g)"
  shows "matches_banned_app upc g f \<longleftrightarrow>
           (\<exists>j < unat (BannedAppCount g).
              us_chars (BannedApps g ! j) \<noteq> [] \<and> map upc f = map upc (us_chars (BannedApps g ! j)))"
proof -
  have "set (take (unat (BannedAppCount g)) (BannedApps g)) =
          (\<lambda>j. BannedApps g ! j) ` {0 ..< unat (BannedAppCount g)}"
    using nth_image [OF assms] by simp
  then show ?thesis
    by (auto simp: matches_banned_app_def banned_app_set_def list_ex_iff
          equal_ignoring_case_def)
qed

lemma no_match_for_empty: "\<not> matches_banned_app upc g []"
  by (auto simp: matches_banned_app_def banned_app_set_def list_ex_iff equal_ignoring_case_def)

lemma component_of_image_name:
  assumes wf: "wf_unicode_string name" and buf: "Buffer name = Some buf"
    and ls: "lastSep = last_separator buf (unat (Length name) div 2) 0 0"
    and comp: "component = \<lparr> Length = Length name - of_nat (lastSep * 2),
                             MaximumLength = Length name - of_nat (lastSep * 2),
                             Buffer = Some (drop lastSep buf) \<rparr>"
  shows "wf_unicode_string component"
    and "us_chars component = final_path_component (us_chars name)"
    and "Length component = 0 \<longleftrightarrow> final_path_component (us_chars name) = []"
proof -
  let ?n = "unat (Length name) div 2"
  have n: "?n \<le> length buf" and ev: "even (unat (Length name))"
    using wf buf by (simp_all add: wf_unicode_string_def)
  have chars: "us_chars name = take ?n buf"
    using buf by (simp add: us_chars_def)
  have le: "lastSep \<le> ?n"
    and dr: "drop lastSep (take ?n buf) = final_path_component (take ?n buf)"
    unfolding ls by (rule last_separator_correct [OF n])+
  have "unat (Length name) < 65536"
    using unsigned_less [of "Length name", where ?'a = nat] by simp
  then have small: "lastSep < 32768" using le by linarith
  have ub: "unat (of_nat (lastSep * 2) :: USHORT) = lastSep * 2"
    by (rule unat_char_count [OF small])
  have twice: "unat (Length name) = ?n * 2" using ev by simp
  have "(of_nat (lastSep * 2) :: USHORT) \<le> Length name"
    using le twice ub by (simp add: word_le_nat_alt del: of_nat_mult)
  then have len: "unat (Length name - of_nat (lastSep * 2)) = (?n - lastSep) * 2"
    using ub twice by (simp add: unat_sub diff_mult_distrib del: of_nat_mult)
  show "wf_unicode_string component"
    using len n le by (simp add: comp wf_unicode_string_def del: of_nat_mult)
  have "us_chars component = take (?n - lastSep) (drop lastSep buf)"
    using len by (simp add: comp us_chars_def del: of_nat_mult)
  also have "\<dots> = drop lastSep (take ?n buf)"
    using le by (simp add: drop_take)
  finally show uc: "us_chars component = final_path_component (us_chars name)"
    using dr chars by simp
  have l: "length (final_path_component (us_chars name)) = ?n - lastSep"
    using dr chars n le by (metis length_drop length_take min.absorb2)
  have "Length component = 0 \<longleftrightarrow> unat (Length component) = 0"
    by (simp add: unat_eq_0)
  also have "\<dots> \<longleftrightarrow> ?n - lastSep = 0"
    using len by (simp add: comp del: of_nat_mult)
  also have "\<dots> \<longleftrightarrow> final_path_component (us_chars name) = []"
    using l by (metis length_0_conv)
  finally show "Length component = 0 \<longleftrightarrow> final_path_component (us_chars name) = []" .
qed

lemma banned_apps_match_matches:
  assumes inv: "globals_invariant g" and wfc: "wf_unicode_string component"
    and ne: "us_chars component \<noteq> []"
  shows "banned_apps_match upc g component 0 \<longleftrightarrow> matches_banned_app upc g (us_chars component)"
proof -
  have cnt: "unat (BannedAppCount g) \<le> length (BannedApps g)"
    and all: "list_all wf_unicode_string (BannedApps g)"
    using inv by (simp_all add: globals_invariant_def)
  have eq: "RtlEqualUnicodeString upc component (BannedApps g ! j) True \<longleftrightarrow>
              map upc (us_chars component) = map upc (us_chars (BannedApps g ! j))"
    if "j < unat (BannedAppCount g)" for j
  proof -
    have "wf_unicode_string (BannedApps g ! j)"
      using all that cnt by (simp add: list_all_length)
    from RtlEqualUnicodeString_iff [OF wfc this] show ?thesis
      by (simp add: fold_case_def)
  qed
  have nonempty: "us_chars (BannedApps g ! j) \<noteq> []"
    if "map upc (us_chars component) = map upc (us_chars (BannedApps g ! j))" for j
    using that ne by (metis map_is_Nil_conv)
  show ?thesis
    unfolding banned_apps_match_iff matches_banned_app_iff [OF cnt]
    using eq nonempty by auto
qed

lemma TadProcessNotifyCallback_enforcing:
  assumes "ImageFileName ci = Some name" "Buffer name = Some b" "Length name \<noteq> 0"
    and "pol_Flags (CurrentPolicy g) AND TAD_POLICY_FLAG_BLOCK_APPS \<noteq> 0"
  shows "TadProcessNotifyCallback upc g (Some ci) =
           (let lastSep = last_separator b (unat (Length name) div 2) 0 0;
                component = \<lparr> Length = Length name - of_nat (lastSep * 2),
                         MaximumLength = Length name - of_nat (lastSep * 2),
                         Buffer = Some (drop lastSep b) \<rparr>
            in if Length component = 0 then Some ci
            else if banned_apps_match upc g component 0
            then Some (ci\<lparr> CreationStatus := STATUS_ACCESS_DENIED \<rparr>)
            else Some ci)"
  unfolding TadProcessNotifyCallback_def
  apply (simp only: assms(1) option.case)
  apply (simp only: assms(2) option.case)
  apply (simp only: assms(3,4) if_False)
  done

text \<open>
  The callback on a reachable state, for a creation whose image name (when it has
  one) is a well-formed counted string.
\<close>

lemma TadProcessNotifyCallback_on_reachable:
  assumes "reachable g"
    and "\<forall>name. ImageFileName ci = Some name \<longrightarrow> wf_unicode_string name"
  shows "TadProcessNotifyCallback upc g (Some ci) =
           Some (if block_apps_enabled g \<and>
                    matches_banned_app upc g (final_path_component (image_path ci))
                 then ci\<lparr> CreationStatus := STATUS_ACCESS_DENIED \<rparr>
                 else ci)"
proof -
  have inv: "globals_invariant g"
    using assms(1) by (rule reachable_invariant)
  have fpc_empty: "final_path_component [] = []"
    by (simp add: final_path_component_def)
  show ?thesis
  proof (cases "ImageFileName ci")
    case None
    then show ?thesis
      by (simp add: TadProcessNotifyCallback_def image_path_def fpc_empty no_match_for_empty)
  next
    case (Some name)
    have wf: "wf_unicode_string name" using assms(2) Some by simp
    have path: "image_path ci = us_chars name" using Some by (simp add: image_path_def)
    show ?thesis
    proof (cases "Buffer name")
      case None
      then have "us_chars name = []" by (simp add: us_chars_def)
      then show ?thesis
        using Some None
        by (simp add: TadProcessNotifyCallback_def path fpc_empty no_match_for_empty)
    next
      case buf: (Some buf)
      show ?thesis
      proof (cases "Length name = 0")
        case True
        then have "us_chars name = []" by (simp add: us_chars_def buf)
        then show ?thesis
          using Some buf True
          by (simp add: TadProcessNotifyCallback_def path fpc_empty no_match_for_empty)
      next
        case len: False
        show ?thesis
        proof (cases "pol_Flags (CurrentPolicy g) AND TAD_POLICY_FLAG_BLOCK_APPS = 0")
          case True
          then show ?thesis
            using Some buf len
            by (simp add: TadProcessNotifyCallback_def block_apps_enabled_def)
        next
          case flag: False
          then have "pol_Flags (CurrentPolicy g) \<noteq> 0" by auto
          then have enabled: "block_apps_enabled g"
            using inv flag by (auto simp: globals_invariant_def block_apps_enabled_def)
          define lastSep where "lastSep = last_separator buf (unat (Length name) div 2) 0 0"
          define component where
            "component = \<lparr> Length = Length name - of_nat (lastSep * 2),
                            MaximumLength = Length name - of_nat (lastSep * 2),
                            Buffer = Some (drop lastSep buf) \<rparr>"
          note c = component_of_image_name [OF wf buf lastSep_def component_def]
          have code: "TadProcessNotifyCallback upc g (Some ci) =
                        (if Length component = 0 then Some ci
                         else if banned_apps_match upc g component 0
                         then Some (ci\<lparr> CreationStatus := STATUS_ACCESS_DENIED \<rparr>)
                         else Some ci)"
            using TadProcessNotifyCallback_enforcing [OF Some buf len flag]
            unfolding Let_def lastSep_def [symmetric] component_def [symmetric] .
          show ?thesis
          proof (cases "Length component = 0")
            case True
            then show ?thesis
              using c(3) by (simp add: code path no_match_for_empty)
          next
            case False
            then have "us_chars component \<noteq> []" using c(2,3) by simp
            from banned_apps_match_matches [OF inv c(1) this]
            show ?thesis
              using False enabled c(2) by (simp add: code path)
          qed
        qed
      qed
    qed
  qed
qed

text \<open>
  Claim C5. In every reachable state, a process creation is denied (its creation
  status set to access-denied) exactly when \<open>PolicyValid\<close> is set, the block-apps flag of
  the current policy is set, and the final path component of the image path (what
  follows the last backslash) equals, ignoring case, an entry of the banned-app set;
  otherwise the creation is left as it came. So with the flag unset every launch
  passes, and a filename that matches no entry passes. The code tests the flag only;
  in a reachable state a set flag implies \<open>PolicyValid\<close>, since the policy is zero until a
  SetPolicy request is accepted and that request sets both. Reachability is
  sequential: a callback does not run in the middle of a request.
\<close>

theorem process_launch_intercept:
  assumes "reachable g"
    and "\<forall>name. ImageFileName ci = Some name \<longrightarrow> wf_unicode_string name"
  shows "TadProcessNotifyCallback upc g (Some ci) =
           Some (if block_apps_enabled g \<and>
                    matches_banned_app upc g (final_path_component (image_path ci))
                 then ci\<lparr> CreationStatus := STATUS_ACCESS_DENIED \<rparr>
                 else ci)"
  using assms by (rule TadProcessNotifyCallback_on_reachable)

lemma take_2_of_table: "take 2 ((replicate 32 z)[0 := a, Suc 0 := b]) = [a, b]"
  by (simp add: numeral_eq_Suc)

lemma take_1_of_table: "take (Suc 0) ((replicate 32 z)[Suc 0 := b]) = [z]"
  by (simp add: numeral_eq_Suc)

subsection \<open>The sample states\<close>

lemma image_name_srcLen_scan:
  assumes "0 \<notin> set name" "length name < TAD_MAX_IMAGE_NAME_LEN" "j \<le> length name"
  shows "image_name_srcLen (image_name_row name) j j = length name"
  using assms
proof (induction "length name - j" arbitrary: j)
  case 0
  then have j: "j = length name" by simp
  have "image_name_row name ! j = 0"
    using "0.prems"(2) by (simp add: image_name_row_def j nth_append)
  then show ?case
    using "0.prems"(2) by (subst image_name_srcLen.simps) (simp add: j)
next
  case (Suc d)
  then have lt: "j < length name" by simp
  then have "image_name_row name ! j = name ! j"
    by (simp add: image_name_row_def nth_append)
  moreover have "name ! j \<noteq> 0"
    using lt Suc.prems(1) by (metis nth_mem)
  moreover have "image_name_srcLen (image_name_row name) (Suc j) (Suc j) = length name"
    using Suc.hyps(1) [of "Suc j"] Suc.hyps(2) Suc.prems lt by simp
  ultimately show ?case
    using Suc.prems(2) lt by (subst image_name_srcLen.simps) simp
qed

lemma image_name_srcLen_row:
  "0 \<notin> set name \<Longrightarrow> length name < TAD_MAX_IMAGE_NAME_LEN \<Longrightarrow>
   image_name_srcLen (image_name_row name) 0 0 = length name"
  using image_name_srcLen_scan [of name 0] by simp

lemma ab_rows:
  "image_name_srcLen (image_name_row (wstr ''a.exe'')) 0 0 = 5"
  "image_name_srcLen (image_name_row (wstr ''b.exe'')) 0 0 = 5"
  "image_name_srcLen (image_name_row []) 0 0 = 0"
  by (simp_all add: image_name_srcLen_row wstr_def TAD_MAX_IMAGE_NAME_LEN_def)

lemma agent_sample_enforcing: "TadIsCallerProtectedAgent sample_env sample_enforcing"
  by (simp add: TadIsCallerProtectedAgent_def sample_enforcing_def sample_registered_def
        sample_env_def)

lemma agent_sample_registered: "TadIsCallerProtectedAgent sample_env sample_registered"
  by (simp add: TadIsCallerProtectedAgent_def sample_registered_def sample_env_def)

lemma copy_into_zero_row:
  "length name < TAD_MAX_IMAGE_NAME_LEN \<Longrightarrow>
   RtlCopyMemory_wchars (replicate 64 0) (image_name_row name) (length name) = image_name_row name"
  by (simp add: RtlCopyMemory_wchars_def image_name_row_def TAD_MAX_IMAGE_NAME_LEN_def)

lemma length_ab: "length (wstr ''a.exe'') = 5" "length (wstr ''b.exe'') = 5"
  by (simp_all add: wstr_def)

lemma set_banned_apps_a_b:
  assumes "TadIsCallerProtectedAgent env g"
  shows "TadDispatchDeviceControl env g (set_banned_apps_irp [wstr ''a.exe'', wstr ''b.exe'']) =
    complete STATUS_SUCCESS
     (g\<lparr> BannedAppStorage :=
         (replicate 32 (replicate 64 0))
           [0 := image_name_row (wstr ''a.exe''), Suc 0 := image_name_row (wstr ''b.exe'')],
       BannedApps :=
         (replicate 32 zero_UNICODE_STRING)
           [0 := \<lparr> Length = 10, MaximumLength = 128,
                   Buffer = Some (image_name_row (wstr ''a.exe'')) \<rparr>,
            Suc 0 := \<lparr> Length = 10, MaximumLength = 128,
                       Buffer = Some (image_name_row (wstr ''b.exe'')) \<rparr>],
       BannedAppCount := 2 \<rparr>)"
  using assms copy_into_zero_row [of "wstr ''a.exe''"] copy_into_zero_row [of "wstr ''b.exe''"]
  by (simp add: set_banned_apps_irp_def input_irp_def
        TadDispatchDeviceControl_def dispatch_SET_BANNED_APPS_def sizeof_defs
        banned_apps_input_def TAD_MAX_BANNED_APPS_def banned_apps_loop.simps ab_rows
        TAD_MAX_IMAGE_NAME_LEN_def length_ab)

lemma set_banned_apps_empty_a:
  assumes "TadIsCallerProtectedAgent env g"
  shows "TadDispatchDeviceControl env g (set_banned_apps_irp [[], wstr ''a.exe'']) =
    complete STATUS_SUCCESS
     (g\<lparr> BannedAppStorage :=
         (replicate 32 (replicate 64 0))[Suc 0 := image_name_row (wstr ''a.exe'')],
       BannedApps :=
         (replicate 32 zero_UNICODE_STRING)
           [Suc 0 := \<lparr> Length = 10, MaximumLength = 128,
                       Buffer = Some (image_name_row (wstr ''a.exe'')) \<rparr>],
       BannedAppCount := 1 \<rparr>)"
  using assms copy_into_zero_row [of "wstr ''a.exe''"]
  by (simp add: set_banned_apps_irp_def input_irp_def
        TadDispatchDeviceControl_def dispatch_SET_BANNED_APPS_def sizeof_defs
        banned_apps_input_def TAD_MAX_BANNED_APPS_def banned_apps_loop.simps ab_rows
        TAD_MAX_IMAGE_NAME_LEN_def length_ab)

lemma set_banned_apps_a:
  assumes "TadIsCallerProtectedAgent env g"
  shows "TadDispatchDeviceControl env g (set_banned_apps_irp [wstr ''a.exe'']) =
    complete STATUS_SUCCESS
     (g\<lparr> BannedAppStorage :=
         (replicate 32 (replicate 64 0))[0 := image_name_row (wstr ''a.exe'')],
       BannedApps :=
         (replicate 32 zero_UNICODE_STRING)
           [0 := \<lparr> Length = 10, MaximumLength = 128,
                   Buffer = Some (image_name_row (wstr ''a.exe'')) \<rparr>],
       BannedAppCount := 1 \<rparr>)"
  using assms copy_into_zero_row [of "wstr ''a.exe''"]
  by (simp add: set_banned_apps_irp_def input_irp_def
        TadDispatchDeviceControl_def dispatch_SET_BANNED_APPS_def sizeof_defs
        banned_apps_input_def TAD_MAX_BANNED_APPS_def banned_apps_loop.simps ab_rows
        TAD_MAX_IMAGE_NAME_LEN_def length_ab)

lemma after_request_complete:
  "TadDispatchDeviceControl env g Irp = complete st g' \<Longrightarrow> after_request env g Irp = g'"
  by (simp add: after_request_def complete_def)

lemma us_chars_entry:
  "us_chars \<lparr> Length = 10, MaximumLength = 128, Buffer = Some (image_name_row (wstr ''a.exe'')) \<rparr> =
     wstr ''a.exe''"
  "us_chars \<lparr> Length = 10, MaximumLength = 128, Buffer = Some (image_name_row (wstr ''b.exe'')) \<rparr> =
     wstr ''b.exe''"
  "us_chars zero_UNICODE_STRING = []"
  by (simp_all add: us_chars_def image_name_row_def wstr_def zero_UNICODE_STRING_def)

lemma take_1_of_table0: "take (Suc 0) ((replicate 32 z)[0 := a]) = [a]"
  by (simp add: numeral_eq_Suc)

lemma nth_of_table:
  "((replicate 32 z)[Suc 0 := b]) ! 0 = z" "((replicate 32 z)[Suc 0 := b]) ! 1 = b"
  by (simp_all add: numeral_eq_Suc)

lemma wstr_nonempty: "wstr ''a.exe'' \<noteq> []" "wstr ''b.exe'' \<noteq> []"
  by (simp_all add: wstr_def)

lemma banned_app_set_samples:
  assumes "TadIsCallerProtectedAgent env g"
  shows "banned_app_set (after_request env g (set_banned_apps_irp [wstr ''a.exe'', wstr ''b.exe'']))
           = [wstr ''a.exe'', wstr ''b.exe'']"
    and "banned_app_set (after_request env g (set_banned_apps_irp [[], wstr ''a.exe''])) = []"
    and "banned_app_set (after_request env g (set_banned_apps_irp [wstr ''a.exe''])) = [wstr ''a.exe'']"
  by (simp_all add: after_request_complete [OF set_banned_apps_a_b [OF assms]]
        after_request_complete [OF set_banned_apps_empty_a [OF assms]]
        after_request_complete [OF set_banned_apps_a [OF assms]]
        banned_app_set_def take_2_of_table take_1_of_table take_1_of_table0 us_chars_entry
        wstr_nonempty)

lemma policy_after_set_banned_apps:
  assumes "TadIsCallerProtectedAgent env g"
  shows "block_apps_enabled (after_request env g (set_banned_apps_irp [wstr ''a.exe'', wstr ''b.exe'']))
           = block_apps_enabled g"
    and "block_apps_enabled (after_request env g (set_banned_apps_irp [[], wstr ''a.exe'']))
           = block_apps_enabled g"
    and "block_apps_enabled (after_request env g (set_banned_apps_irp [wstr ''a.exe'']))
           = block_apps_enabled g"
  by (simp_all add: after_request_complete [OF set_banned_apps_a_b [OF assms]]
        after_request_complete [OF set_banned_apps_empty_a [OF assms]]
        after_request_complete [OF set_banned_apps_a [OF assms]] block_apps_enabled_def)

lemma block_apps_samples:
  "block_apps_enabled sample_enforcing" "\<not> block_apps_enabled sample_registered"
  by (simp_all add: block_apps_enabled_def sample_enforcing_def sample_policy_def
        sample_registered_def sample_loaded_def DriverEntry_def g_Tad_zero_def
        zero_TAD_POLICY_BUFFER_def TAD_POLICY_FLAG_BLOCK_APPS_def)

lemma reachable_after_request:
  assumes "reachable g" "wf_request (Request Irp)"
  shows "reachable (after_request env g Irp)"
proof (cases "TadDispatchDeviceControl env g Irp")
  case (Inl f)
  then show ?thesis using assms(1) by (simp add: after_request_def)
next
  case (Inr r)
  obtain c g' where r: "r = (c, g')" by (cases r)
  have "reachable g'"
    using reachable_DeviceControl [OF assms] Inr r by simp
  then show ?thesis using Inr r by (simp add: after_request_def)
qed

lemma reachable_sample_loaded: "reachable sample_loaded"
proof -
  have "DriverEntry STATUS_SUCCESS (Some 1) (Some 2) = (STATUS_SUCCESS, sample_loaded)"
    by (simp add: sample_loaded_def DriverEntry_def Let_def)
  then show ?thesis by (rule reachable_DriverEntry)
qed

lemma reachable_sample_registered: "reachable sample_registered"
proof -
  have "wf_request (Request (input_irp 8 (IOCTL_TAD_PROTECT_PID
          (Some \<lparr> pid_TargetPid = 4242, pid_Flags = 0 \<rparr>))))"
    by (simp add: wf_request_def input_irp_def)
  from reachable_after_request [OF reachable_sample_loaded this, of sample_env]
  show ?thesis
    by (simp add: after_request_complete [OF sample_registered_reached])
qed

lemma sample_enforcing_reached:
  "TadDispatchDeviceControl sample_env sample_registered
     (input_irp 564 (IOCTL_TAD_SET_POLICY (Some sample_policy))) =
   complete STATUS_SUCCESS sample_enforcing"
  using agent_sample_registered
  by (simp add: TadDispatchDeviceControl_def dispatch_SET_POLICY_def input_irp_def sizeof_defs
        sample_enforcing_def sample_policy_def)

lemma reachable_sample_enforcing: "reachable sample_enforcing"
proof -
  have "wf_request (Request (input_irp 564 (IOCTL_TAD_SET_POLICY (Some sample_policy))))"
    by (simp add: wf_request_def input_irp_def sample_policy_def zero_TAD_POLICY_BUFFER_def)
  from reachable_after_request [OF reachable_sample_registered this, of sample_env]
  show ?thesis
    by (simp add: after_request_complete [OF sample_enforcing_reached])
qed

lemma wf_set_banned_apps_irp:
  assumes "length names \<le> TAD_MAX_BANNED_APPS"
    and "list_all (\<lambda>name. length name \<le> TAD_MAX_IMAGE_NAME_LEN) names"
  shows "wf_request (Request (set_banned_apps_irp names))"
  using assms
  by (auto simp: wf_request_def set_banned_apps_irp_def input_irp_def banned_apps_input_def
        image_name_row_def list_all_iff)

lemma wf_sample_irps:
  "wf_request (Request (set_banned_apps_irp [wstr ''a.exe'', wstr ''b.exe'']))"
  "wf_request (Request (set_banned_apps_irp [[], wstr ''a.exe'']))"
  "wf_request (Request (set_banned_apps_irp [wstr ''a.exe'']))"
  by (rule wf_set_banned_apps_irp;
      simp add: TAD_MAX_BANNED_APPS_def TAD_MAX_IMAGE_NAME_LEN_def wstr_def)+

lemma image_path_sample_launch:
  "length path < 32767 \<Longrightarrow> image_path (sample_launch path) = path"
  by (simp add: image_path_def sample_launch_def us_chars_RtlInitUnicodeString)

lemma wf_sample_launch:
  "length path < 32767 \<Longrightarrow>
   \<forall>name. ImageFileName (sample_launch path) = Some name \<longrightarrow> wf_unicode_string name"
  by (simp add: sample_launch_def wf_RtlInitUnicodeString)

lemma sample_paths:
  "length (nt_path [wstr ''Device'', wstr ''HarddiskVolume3'', wstr ''A.EXE'']) < 32767"
  "final_path_component (nt_path [wstr ''Device'', wstr ''HarddiskVolume3'', wstr ''A.EXE'']) =
     wstr ''A.EXE''"
  "length (nt_path [wstr ''Device'', wstr ''HarddiskVolume3'', wstr ''c.exe'']) < 32767"
  "final_path_component (nt_path [wstr ''Device'', wstr ''HarddiskVolume3'', wstr ''c.exe'']) =
     wstr ''c.exe''"
  "length (nt_path [wstr ''Device'', wstr ''HarddiskVolume3'', wstr ''a.exe'']) < 32767"
  "final_path_component (nt_path [wstr ''Device'', wstr ''HarddiskVolume3'', wstr ''a.exe'']) =
     wstr ''a.exe''"
  by (simp_all add: nt_path_def wstr_def final_path_component_def)

lemma sample_matches:
  "matches_banned_app upcase_ascii g (wstr ''A.EXE'') \<longleftrightarrow>
     list_ex (equal_ignoring_case upcase_ascii (wstr ''A.EXE'')) (banned_app_set g)"
  by (simp add: matches_banned_app_def)

lemma ci_compare_samples:
  "equal_ignoring_case upcase_ascii (wstr ''A.EXE'') (wstr ''a.exe'')"
  "\<not> equal_ignoring_case upcase_ascii (wstr ''A.EXE'') (wstr ''b.exe'')"
  "\<not> equal_ignoring_case upcase_ascii (wstr ''c.exe'') (wstr ''a.exe'')"
  "\<not> equal_ignoring_case upcase_ascii (wstr ''c.exe'') (wstr ''b.exe'')"
  "equal_ignoring_case upcase_ascii (wstr ''a.exe'') (wstr ''a.exe'')"
  by (simp_all add: equal_ignoring_case_def wstr_def upcase_ascii_def)

text \<open>
  The scenario of the spec: the agent replaces the banned-app set with a.exe and b.exe.
  With the block-apps policy in force the launch of A.EXE is denied; without a policy
  it passes; c.exe passes.
\<close>

theorem process_launch_intercept_witness:
  "TadProcessNotifyCallback upcase_ascii
     (after_request sample_env sample_enforcing
        (set_banned_apps_irp [wstr ''a.exe'', wstr ''b.exe'']))
     (Some (sample_launch (nt_path [wstr ''Device'', wstr ''HarddiskVolume3'', wstr ''A.EXE'']))) =
     Some ((sample_launch (nt_path [wstr ''Device'', wstr ''HarddiskVolume3'', wstr ''A.EXE'']))
             \<lparr> CreationStatus := STATUS_ACCESS_DENIED \<rparr>) \<and>
   TadProcessNotifyCallback upcase_ascii
     (after_request sample_env sample_registered
        (set_banned_apps_irp [wstr ''a.exe'', wstr ''b.exe'']))
     (Some (sample_launch (nt_path [wstr ''Device'', wstr ''HarddiskVolume3'', wstr ''A.EXE'']))) =
     Some (sample_launch (nt_path [wstr ''Device'', wstr ''HarddiskVolume3'', wstr ''A.EXE''])) \<and>
   TadProcessNotifyCallback upcase_ascii
     (after_request sample_env sample_enforcing
        (set_banned_apps_irp [wstr ''a.exe'', wstr ''b.exe'']))
     (Some (sample_launch (nt_path [wstr ''Device'', wstr ''HarddiskVolume3'', wstr ''c.exe'']))) =
     Some (sample_launch (nt_path [wstr ''Device'', wstr ''HarddiskVolume3'', wstr ''c.exe'']))"
proof -
  let ?irp = "set_banned_apps_irp [wstr ''a.exe'', wstr ''b.exe'']"
  let ?A = "nt_path [wstr ''Device'', wstr ''HarddiskVolume3'', wstr ''A.EXE'']"
  let ?c = "nt_path [wstr ''Device'', wstr ''HarddiskVolume3'', wstr ''c.exe'']"
  have rE: "reachable (after_request sample_env sample_enforcing ?irp)"
    and rU: "reachable (after_request sample_env sample_registered ?irp)"
    by (rule reachable_after_request [OF _ wf_sample_irps(1)],
        rule reachable_sample_enforcing reachable_sample_registered)+
  show ?thesis
    using process_launch_intercept [OF rE wf_sample_launch [OF sample_paths(1)], of upcase_ascii]
      process_launch_intercept [OF rU wf_sample_launch [OF sample_paths(1)], of upcase_ascii]
      process_launch_intercept [OF rE wf_sample_launch [OF sample_paths(3)], of upcase_ascii]
    by (simp add: image_path_sample_launch sample_paths matches_banned_app_def
          banned_app_set_samples agent_sample_enforcing agent_sample_registered
          policy_after_set_banned_apps block_apps_samples ci_compare_samples)
qed

text \<open>
  Claim C2 at its failing input: the agent sends \<open>Count = 2\<close> with an empty first row
  and a.exe in the second. The request succeeds. The loop passes over row 0 and stores
  a.exe in slot 1, the index of its input row, but counts one entry; the callback
  compares against the first \<open>BannedAppCount\<close> slots only, that is against the empty
  slot 0. With the block-apps policy in force the launch of a.exe is not denied, though
  it is denied when a.exe is sent alone in row 0. The valid entry is lost.
\<close>

theorem set_banned_apps_loses_entry_after_skipped_row:
  "status_of (TadDispatchDeviceControl sample_env sample_enforcing
     (set_banned_apps_irp [[], wstr ''a.exe''])) = Some STATUS_SUCCESS \<and>
   BannedAppCount (after_request sample_env sample_enforcing
     (set_banned_apps_irp [[], wstr ''a.exe''])) = 1 \<and>
   BannedApps (after_request sample_env sample_enforcing
     (set_banned_apps_irp [[], wstr ''a.exe''])) ! 0 = zero_UNICODE_STRING \<and>
   us_chars (BannedApps (after_request sample_env sample_enforcing
     (set_banned_apps_irp [[], wstr ''a.exe''])) ! 1) = wstr ''a.exe'' \<and>
   block_apps_enabled (after_request sample_env sample_enforcing
     (set_banned_apps_irp [[], wstr ''a.exe''])) \<and>
   TadProcessNotifyCallback upcase_ascii
     (after_request sample_env sample_enforcing (set_banned_apps_irp [[], wstr ''a.exe'']))
     (Some (sample_launch (nt_path [wstr ''Device'', wstr ''HarddiskVolume3'', wstr ''a.exe'']))) =
     Some (sample_launch (nt_path [wstr ''Device'', wstr ''HarddiskVolume3'', wstr ''a.exe''])) \<and>
   TadProcessNotifyCallback upcase_ascii
     (after_request sample_env sample_enforcing (set_banned_apps_irp [wstr ''a.exe'']))
     (Some (sample_launch (nt_path [wstr ''Device'', wstr ''HarddiskVolume3'', wstr ''a.exe'']))) =
     Some ((sample_launch (nt_path [wstr ''Device'', wstr ''HarddiskVolume3'', wstr ''a.exe'']))
             \<lparr> CreationStatus := STATUS_ACCESS_DENIED \<rparr>)"
proof -
  let ?skip = "set_banned_apps_irp [[], wstr ''a.exe'']"
  let ?only = "set_banned_apps_irp [wstr ''a.exe'']"
  let ?a = "nt_path [wstr ''Device'', wstr ''HarddiskVolume3'', wstr ''a.exe'']"
  note st = after_request_complete [OF set_banned_apps_empty_a [OF agent_sample_enforcing]]
  have r1: "reachable (after_request sample_env sample_enforcing ?skip)"
    and r2: "reachable (after_request sample_env sample_enforcing ?only)"
    by (rule reachable_after_request [OF reachable_sample_enforcing],
        rule wf_sample_irps)+
  have status: "status_of (TadDispatchDeviceControl sample_env sample_enforcing ?skip) =
                  Some STATUS_SUCCESS"
    by (simp add: set_banned_apps_empty_a [OF agent_sample_enforcing])
  have table: "BannedAppCount (after_request sample_env sample_enforcing ?skip) = 1"
    "BannedApps (after_request sample_env sample_enforcing ?skip) ! 0 = zero_UNICODE_STRING"
    "us_chars (BannedApps (after_request sample_env sample_enforcing ?skip) ! 1) = wstr ''a.exe''"
    by (simp_all add: st nth_of_table us_chars_entry)
  have launch:
    "TadProcessNotifyCallback upcase_ascii (after_request sample_env sample_enforcing ?skip)
       (Some (sample_launch ?a)) = Some (sample_launch ?a)"
    "TadProcessNotifyCallback upcase_ascii (after_request sample_env sample_enforcing ?only)
       (Some (sample_launch ?a)) =
       Some ((sample_launch ?a)\<lparr> CreationStatus := STATUS_ACCESS_DENIED \<rparr>)"
    using TadProcessNotifyCallback_on_reachable
        [OF r1 wf_sample_launch [OF sample_paths(5)], of upcase_ascii]
      TadProcessNotifyCallback_on_reachable
        [OF r2 wf_sample_launch [OF sample_paths(5)], of upcase_ascii]
    by (simp_all add: image_path_sample_launch sample_paths matches_banned_app_def
          banned_app_set_samples agent_sample_enforcing
          policy_after_set_banned_apps block_apps_samples ci_compare_samples)
  show ?thesis
    using status table launch
    by (simp add: policy_after_set_banned_apps agent_sample_enforcing block_apps_samples)
qed

end
